theory Spec2Isabelle
  imports Main "HOL-Library.Word"
begin

unbundle bit_operations_syntax

section \<open>Data model\<close>

text \<open>
  The Kubernetes and Volcano API objects, reduced to the fields that the SSH plugin
  and the controller entry point read or write. Go structs are records; a Go
  \<^verbatim>\<open>string\<close> is a \<open>string\<close>; an \<^verbatim>\<open>int32\<close> is a \<open>32 word\<close> read with \<open>sint\<close>;
  a slice that the code only reads or replaces is a list; a pointer field that may be
  nil is an \<open>option\<close>. Record fields carry the name of the Go type as a prefix where
  the Go field name alone would clash (\<^verbatim>\<open>Name\<close>, \<^verbatim>\<open>Spec\<close>).
\<close>

record KeyToPath =
  Key :: string
  Path :: string

record SecretVolumeSource =
  SecretName :: string
  Items :: "KeyToPath list"
  DefaultMode :: "32 word option"

record Volume =
  Volume_Name :: string
  Secret :: "SecretVolumeSource option"

record VolumeMount =
  MountPath :: string
  SubPath :: string
  VolumeMount_Name :: string

text \<open>
  The mounts of a container are a slice that \<^verbatim>\<open>append\<close> may write through, so the record
  keeps the slice as Go has it, a window on a backing array: \<open>VolumeMounts\<close> are the
  elements the slice reads (their number is \<^verbatim>\<open>len\<close>), \<open>VolumeMounts_array\<close> names the
  backing array, \<open>VolumeMounts_offset\<close> is the index in the array of the slice's first
  element, and \<open>VolumeMounts_cap\<close> is \<^verbatim>\<open>cap\<close>, the number of cells from there to the end of
  the array. Slices of two containers with the same array share its cells. A nil slice
  has length and capacity 0.
\<close>

record Container =
  Container_Name :: string
  VolumeMounts :: "VolumeMount list"
  VolumeMounts_array :: nat
  VolumeMounts_offset :: nat
  VolumeMounts_cap :: nat

record PodSpec =
  Volumes :: "Volume list"
  Containers :: "Container list"
  Hostname :: string
  Subdomain :: string

record Pod =
  Pod_Name :: string
  Pod_Spec :: PodSpec

record PodTemplateSpec =
  Template_Spec :: PodSpec

record TaskSpec =
  Task_Name :: string
  Replicas :: "32 word"
  Template :: PodTemplateSpec

record JobSpec =
  Tasks :: "TaskSpec list"

text \<open>
  \<^verbatim>\<open>ControlledResources\<close> is a Go \<^verbatim>\<open>map[string]string\<close>. A nil map (\<open>None\<close>) can be
  read, every key giving the empty string, but not written.
\<close>

record JobStatus =
  ControlledResources :: "(string \<rightharpoonup> string) option"

record Job =
  Job_Name :: string
  Job_Namespace :: string
  Job_UID :: string
  Job_Spec :: JobSpec
  Job_Status :: JobStatus

text \<open>
  The plugin struct. The Kubernetes client in \<^verbatim>\<open>Clientset.KubeClients\<close> is an opaque
  handle that the plugin only passes on, so its type is a parameter.
\<close>

record 'c PluginClientset =
  KubeClients :: 'c

record 'c sshPlugin =
  pluginArguments :: "string list"
  Clientset :: "'c PluginClientset"
  noRoot :: bool
  sshKeyFilePath :: string

text \<open>
  The package constants that the plugin file uses but that are declared elsewhere in
  the repository (\<^verbatim>\<open>SSHAbsolutePath\<close>, \<^verbatim>\<open>SSHRelativePath\<close>, \<^verbatim>\<open>SSHPrivateKey\<close>,
  \<^verbatim>\<open>SSHPublicKey\<close>, \<^verbatim>\<open>SSHAuthorizedKeys\<close>, \<^verbatim>\<open>SSHConfig\<close>, and
  \<^verbatim>\<open>env.ConfigMapMountPath\<close>) are parameters of the model.
\<close>

record sshConsts =
  SSHAbsolutePath :: string
  SSHRelativePath :: string
  SSHPrivateKey :: string
  SSHPublicKey :: string
  SSHAuthorizedKeys :: string
  SSHConfig :: string
  ConfigMapMountPath :: string

section \<open>The SSH plugin\<close>

subsection \<open>Name and secretName\<close>

text \<open>\<^verbatim>\<open>func (sp *sshPlugin) Name() string { return "ssh" }\<close>\<close>

definition Name :: "'c sshPlugin \<Rightarrow> string" where
  "Name sp = ''ssh''"

text \<open>
  \<^verbatim>\<open>fmt.Sprintf("%s-%s-%s", job.Name, job.UID, sp.Name())\<close>: the verb \<^verbatim>\<open>%s\<close> copies a
  string (and \<^verbatim>\<open>types.UID\<close>, a string type) unchanged.
\<close>

definition secretName :: "'c sshPlugin \<Rightarrow> Job \<Rightarrow> string" where
  "secretName sp job = Job_Name job @ ''-'' @ Job_UID job @ ''-'' @ Name sp"

subsection \<open>generateSSHConfig\<close>

text \<open>
  The inner loop \<^verbatim>\<open>for i := 0; i < int(ts.Replicas); i++\<close> of \<^verbatim>\<open>generateSSHConfig\<close>,
  from index \<open>i\<close> on, with the text built so far. \<^verbatim>\<open>int(ts.Replicas)\<close> is the signed
  value of the \<^verbatim>\<open>int32\<close>; \<open>i\<close> stays below \<open>2^31\<close>, so the Go \<^verbatim>\<open>int\<close> never wraps.
  The \<^verbatim>\<open>break\<close> leaves the loop with the text as it is. \<^verbatim>\<open>jobhelpers.MakePodName\<close> is
  declared elsewhere in the repository and is a parameter.
\<close>

function replicaLoop ::
  "(string \<Rightarrow> string \<Rightarrow> int \<Rightarrow> string) \<Rightarrow> Job \<Rightarrow> TaskSpec \<Rightarrow> int \<Rightarrow> string \<Rightarrow> string" where
  "replicaLoop MakePodName job ts i config =
     (if i < sint (Replicas ts) then
        (let hostName = Hostname (Template_Spec (Template ts));
             subdomain = Subdomain (Template_Spec (Template ts));
             hostName = (if length hostName = 0
                         then MakePodName (Job_Name job) (Task_Name ts) i else hostName);
             subdomain = (if length subdomain = 0 then Job_Name job else subdomain);
             config = config @ ''Host '' @ hostName @ ''\<newline>'';
             config = config @ ''  HostName '' @ hostName @ ''.'' @ subdomain @ ''\<newline>''
         in if length (Hostname (Template_Spec (Template ts))) \<noteq> 0 then config
            else replicaLoop MakePodName job ts (i + 1) config)
      else config)"
  by pat_completeness auto
termination
  by (relation "measure (\<lambda>(MakePodName, job, ts, i, config). nat (sint (Replicas ts) - i))") auto

text \<open>The outer loop \<^verbatim>\<open>for _, ts := range job.Spec.Tasks\<close>.\<close>

fun tasksLoop ::
  "(string \<Rightarrow> string \<Rightarrow> int \<Rightarrow> string) \<Rightarrow> Job \<Rightarrow> TaskSpec list \<Rightarrow> string \<Rightarrow> string" where
  "tasksLoop MakePodName job [] config = config"
| "tasksLoop MakePodName job (ts # rest) config =
     tasksLoop MakePodName job rest (replicaLoop MakePodName job ts 0 config)"

definition generateSSHConfig :: "(string \<Rightarrow> string \<Rightarrow> int \<Rightarrow> string) \<Rightarrow> Job \<Rightarrow> string" where
  "generateSSHConfig MakePodName job =
     tasksLoop MakePodName job (Tasks (Job_Spec job))
       (''StrictHostKeyChecking no'' @ ''\<newline>'' @ ''UserKnownHostsFile /dev/null'' @ ''\<newline>'')"

text \<open>
  The text of one entry, as the two \<^verbatim>\<open>config +=\<close> statements write it, for stating what
  the generator emits.
\<close>

definition hostEntry :: "string \<Rightarrow> string \<Rightarrow> string" where
  "hostEntry hostName subdomain =
     ''Host '' @ hostName @ ''\<newline>'' @ ''  HostName '' @ hostName @ ''.'' @ subdomain @ ''\<newline>''"

definition sshConfigHeader :: string where
  "sshConfigHeader = ''StrictHostKeyChecking no'' @ ''\<newline>'' @ ''UserKnownHostsFile /dev/null'' @ ''\<newline>''"

subsection \<open>Plugin arguments: addFlags and New\<close>

text \<open>
  \<^verbatim>\<open>addFlags\<close> registers a boolean flag \<^verbatim>\<open>no-root\<close> and a string flag
  \<^verbatim>\<open>ssh-key-file-path\<close> on a \<^verbatim>\<open>flag.FlagSet\<close> of Go's standard library, bound to the
  two fields of the plugin, and parses the plugin's arguments. The definitions below
  follow \<^verbatim>\<open>strconv.ParseBool\<close>, \<^verbatim>\<open>FlagSet.parseOne\<close> and \<^verbatim>\<open>FlagSet.Parse\<close> of the
  standard library for a set with exactly these two flags.
\<close>

datatype flagError =
  BadFlagSyntax | FlagNotDefined | ErrHelp | InvalidBooleanValue | FlagNeedsArgument

text \<open>
  \<^verbatim>\<open>boolValue.Set\<close>: the value that \<^verbatim>\<open>strconv.ParseBool\<close> returns is stored also when it
  reports an error (it is \<^verbatim>\<open>false\<close> then).
\<close>

definition ParseBool :: "string \<Rightarrow> bool \<times> flagError option" where
  "ParseBool str =
     (if str \<in> set [''1'', ''t'', ''T'', ''true'', ''TRUE'', ''True''] then (True, None)
      else if str \<in> set [''0'', ''f'', ''F'', ''false'', ''FALSE'', ''False''] then (False, None)
      else (False, Some InvalidBooleanValue))"

text \<open>
  The scan \<^verbatim>\<open>for i := 1; i < len(name); i++\<close> for the first \<^verbatim>\<open>=\<close> at an index of at least
  1: the name before it, and the value after it when there is one.
\<close>

definition splitValue :: "string \<Rightarrow> string \<times> string option" where
  "splitValue name =
     (case name of
        [] \<Rightarrow> ([], None)
      | c # cs \<Rightarrow>
          if CHR ''='' \<in> set cs
          then (c # takeWhile (\<lambda>x. x \<noteq> CHR ''='') cs,
                Some (tl (dropWhile (\<lambda>x. x \<noteq> CHR ''='') cs)))
          else (name, None))"

text \<open>
  \<^verbatim>\<open>parseOne\<close> on the remaining arguments: whether a flag was seen, the error, the plugin
  with the flag's variable set, and the arguments that remain.
\<close>

definition parseOne ::
  "'c sshPlugin \<Rightarrow> string list \<Rightarrow> bool \<times> flagError option \<times> 'c sshPlugin \<times> string list" where
  "parseOne sp args =
     (case args of
        [] \<Rightarrow> (False, None, sp, args)
      | s # rest \<Rightarrow>
          if length s < 2 \<or> s ! 0 \<noteq> CHR ''-'' then (False, None, sp, args)
          else if s ! 1 = CHR ''-'' \<and> length s = 2 then (False, None, sp, rest)
          else
            (let numMinuses = (if s ! 1 = CHR ''-'' then 2 else 1);
                 name = drop numMinuses s
             in if length name = 0 \<or> name ! 0 = CHR ''-'' \<or> name ! 0 = CHR ''=''
                then (False, Some BadFlagSyntax, sp, args)
                else
                  (case splitValue name of
                     (name, value) \<Rightarrow>
                       if name = ''no-root'' then
                         (case value of
                            Some v \<Rightarrow>
                              (case ParseBool v of
                                 (b, Some err) \<Rightarrow> (False, Some err, sp\<lparr>noRoot := b\<rparr>, rest)
                               | (b, None) \<Rightarrow> (True, None, sp\<lparr>noRoot := b\<rparr>, rest))
                          | None \<Rightarrow> (True, None, sp\<lparr>noRoot := True\<rparr>, rest))
                       else if name = ''ssh-key-file-path'' then
                         (case value of
                            Some v \<Rightarrow> (True, None, sp\<lparr>sshKeyFilePath := v\<rparr>, rest)
                          | None \<Rightarrow>
                              (case rest of
                                 [] \<Rightarrow> (False, Some FlagNeedsArgument, sp, rest)
                               | v # rest' \<Rightarrow> (True, None, sp\<lparr>sshKeyFilePath := v\<rparr>, rest')))
                       else if name = ''help'' \<or> name = ''h'' then (False, Some ErrHelp, sp, rest)
                       else (False, Some FlagNotDefined, sp, rest))))"

text \<open>
  \<^verbatim>\<open>FlagSet.Parse\<close> with \<^verbatim>\<open>flag.ContinueOnError\<close>: \<^verbatim>\<open>parseOne\<close> is repeated while it sees
  a flag; the first error is returned.
\<close>

function Parse :: "'c sshPlugin \<Rightarrow> string list \<Rightarrow> flagError option \<times> 'c sshPlugin" where
  "Parse sp args =
     (case parseOne sp args of
        (seen, err, sp', args') \<Rightarrow> if seen then Parse sp' args' else (err, sp'))"
  by pat_completeness auto
termination
proof (relation "measure (\<lambda>(sp, args). length args)")
  show "wf (measure (\<lambda>(sp :: 'c sshPlugin, args :: string list). length args))"
    by simp
next
  fix sp :: "'c sshPlugin" and args x1 x2 x1a x2a x1b x2b
  assume "(x1, x2) = parseOne sp args" "(x1a, x2a) = x2" "(x1b, x2b) = x2a" "x1"
  then have "parseOne sp args = (True, x1a, x1b, x2b)"
    by simp
  then have "length x2b < length args"
    by (auto simp: parseOne_def Let_def
             split: list.splits if_splits prod.splits option.splits)
  then show "((x1b, x2b), (sp, args)) \<in> measure (\<lambda>(sp, args). length args)"
    by simp
qed

text \<open>
  \<^verbatim>\<open>addFlags\<close>: \<^verbatim>\<open>BoolVar\<close> and \<^verbatim>\<open>StringVar\<close> store the default, which is the field's
  current value, into the field; an error of \<^verbatim>\<open>Parse\<close> is logged and dropped.
\<close>

definition addFlags :: "'c sshPlugin \<Rightarrow> 'c sshPlugin" where
  "addFlags sp =
     (let sp = sp\<lparr>noRoot := noRoot sp\<rparr>;
          sp = sp\<lparr>sshKeyFilePath := sshKeyFilePath sp\<rparr>
      in snd (Parse sp (pluginArguments sp)))"

definition New :: "sshConsts \<Rightarrow> 'c PluginClientset \<Rightarrow> string list \<Rightarrow> 'c sshPlugin" where
  "New K client arguments =
     (let sp = \<lparr>pluginArguments = arguments, Clientset = client, noRoot = False,
                sshKeyFilePath = SSHAbsolutePath K\<rparr>;
          sp = addFlags sp
      in if noRoot sp \<and> sshKeyFilePath sp = SSHAbsolutePath K
         then sp\<lparr>sshKeyFilePath := ConfigMapMountPath K @ ''/'' @ SSHRelativePath K\<rparr>
         else sp)"

subsection \<open>mountRsaKey and OnPodCreate\<close>

text \<open>
  A write of \<open>v\<close> into cell \<open>k\<close> of array \<open>a\<close>, as the slice of one container sees it:
  the element changes when the slice is a window on this array that covers the cell.
\<close>

definition writeCell :: "nat \<Rightarrow> nat \<Rightarrow> VolumeMount \<Rightarrow> Container \<Rightarrow> Container" where
  "writeCell a k v c =
     (if VolumeMounts_array c = a \<and> VolumeMounts_offset c \<le> k
         \<and> k < VolumeMounts_offset c + length (VolumeMounts c)
      then c\<lparr>VolumeMounts := (VolumeMounts c)[k - VolumeMounts_offset c := v]\<rparr>
      else c)"

text \<open>The name of an array that no slice of the containers is a window on.\<close>

definition freshArray :: "Container list \<Rightarrow> nat" where
  "freshArray cs = Suc (foldr max (map VolumeMounts_array cs) 0)"

text \<open>
  One round of the loop \<^verbatim>\<open>for i, c := range pod.Spec.Containers\<close> of \<^verbatim>\<open>mountRsaKey\<close>:
  \<^verbatim>\<open>pod.Spec.Containers[i].VolumeMounts = append(c.VolumeMounts, vm)\<close>, where \<open>c\<close> is the
  element read at \<open>i\<close>. When the slice has spare capacity, \<^verbatim>\<open>append\<close> writes \<open>vm\<close> into the
  cell behind the slice's last element, in the array the slice shares with whatever
  other slices are windows on it, and returns the slice one longer. Otherwise it
  allocates an array, copies the elements and \<open>vm\<close> into it and returns a slice on
  the new array; the language leaves the capacity of the new array to the runtime
  (large enough for the elements), and the loop does not read it again: the model
  records the length.
\<close>

definition appendMount :: "nat \<Rightarrow> VolumeMount \<Rightarrow> Container list \<Rightarrow> Container list" where
  "appendMount i vm cs =
     (let c = cs ! i;
          n = length (VolumeMounts c)
      in if n < VolumeMounts_cap c
         then (let cs = map (writeCell (VolumeMounts_array c) (VolumeMounts_offset c + n) vm) cs
               in cs[i := (cs ! i)\<lparr>VolumeMounts := VolumeMounts c @ [vm]\<rparr>])
         else cs[i := (cs ! i)\<lparr>VolumeMounts := VolumeMounts c @ [vm],
                               VolumeMounts_array := freshArray cs,
                               VolumeMounts_offset := 0,
                               VolumeMounts_cap := n + 1\<rparr>])"

text \<open>The loop: the indices run over the length the slice had when the loop began.\<close>

definition appendMounts :: "VolumeMount \<Rightarrow> Container list \<Rightarrow> Container list" where
  "appendMounts vm containers =
     fold (\<lambda>i cs. appendMount i vm cs) [0..<length containers] containers"

text \<open>
  \<^verbatim>\<open>mountRsaKey\<close> works on the pod in place; the model returns the pod. The slice of
  volumes is only replaced by the slice that \<^verbatim>\<open>append\<close> returns, which reads as the old
  elements and the new volume whether or not the array was written in place, and no
  other slice of volumes belongs to the pod. Arrays that the pod shares with objects
  outside it are not followed. The octal literals \<^verbatim>\<open>0600\<close> and \<^verbatim>\<open>0755\<close> are 384 and 493.
\<close>

definition mountRsaKey :: "sshConsts \<Rightarrow> 'c sshPlugin \<Rightarrow> Pod \<Rightarrow> Job \<Rightarrow> Pod" where
  "mountRsaKey K sp pod job =
     (let secretName = secretName sp job;
          sshVolume = \<lparr>Volume_Name = secretName, Secret = None\<rparr>;
          mode = (384 :: 32 word);
          sshVolume = sshVolume\<lparr>Secret := Some
            \<lparr>SecretName = secretName,
             Items =
               [\<lparr>Key = SSHPrivateKey K, Path = SSHRelativePath K @ ''/'' @ SSHPrivateKey K\<rparr>,
                \<lparr>Key = SSHPublicKey K, Path = SSHRelativePath K @ ''/'' @ SSHPublicKey K\<rparr>,
                \<lparr>Key = SSHPublicKey K, Path = SSHRelativePath K @ ''/'' @ SSHAuthorizedKeys K\<rparr>,
                \<lparr>Key = SSHConfig K, Path = SSHRelativePath K @ ''/'' @ SSHConfig K\<rparr>],
             DefaultMode = Some mode\<rparr>\<rparr>;
          sshVolume =
            (if sshKeyFilePath sp \<noteq> SSHAbsolutePath K
             then (let noRootMode = (493 :: 32 word)
                   in sshVolume\<lparr>Secret :=
                        map_option (\<lambda>s. s\<lparr>DefaultMode := Some noRootMode\<rparr>) (Secret sshVolume)\<rparr>)
             else sshVolume);
          pod = pod\<lparr>Pod_Spec := (Pod_Spec pod)\<lparr>Volumes := Volumes (Pod_Spec pod) @ [sshVolume]\<rparr>\<rparr>;
          vm = \<lparr>MountPath = sshKeyFilePath sp, SubPath = SSHRelativePath K,
                VolumeMount_Name = secretName\<rparr>
      in pod\<lparr>Pod_Spec := (Pod_Spec pod)\<lparr>Containers := appendMounts vm (Containers (Pod_Spec pod))\<rparr>\<rparr>)"

text \<open>
  The Go \<^verbatim>\<open>error\<close> of a hook is an \<open>option\<close>: \<open>None\<close> is \<^verbatim>\<open>nil\<close>, \<open>Some msg\<close> a non-nil
  error with its message. \<^verbatim>\<open>OnPodCreate\<close> returns the error and the pod it worked on.
\<close>

type_synonym error = string

definition OnPodCreate :: "sshConsts \<Rightarrow> 'c sshPlugin \<Rightarrow> Pod \<Rightarrow> Job \<Rightarrow> error option \<times> Pod" where
  "OnPodCreate K sp pod job = (let pod = mountRsaKey K sp pod job in (None, pod))"

text \<open>
  How a mode reads as Unix permission bits, for stating which modes are restrictive
  and which are permissive: the bits \<^verbatim>\<open>0077\<close> are those of group and others, the bit
  \<^verbatim>\<open>0004\<close> is read permission for others.
\<close>

definition ownerOnly :: "32 word \<Rightarrow> bool" where
  "ownerOnly m = (m AND 63 = 0)"

definition worldReadable :: "32 word \<Rightarrow> bool" where
  "worldReadable m = (m AND 4 \<noteq> 0)"

subsection \<open>generateRsaKey, OnJobAdd and OnJobDelete\<close>

text \<open>
  What a call can do besides returning a value: panic, block for ever, or end the
  process.
\<close>

datatype 'a outcome = Return 'a | Panics | NeverReturns | ProcessExits

text \<open>
  The library and repository functions that the hooks call but that are not part of
  the plugin file. A call that returns a value and an error returns a sum, \<open>Inl\<close> the
  non-nil error. \<^verbatim>\<open>helpers.CreateSecret\<close> and \<^verbatim>\<open>helpers.DeleteSecret\<close> get the job, the
  client, the name (and the data) and return an error or \<^verbatim>\<open>nil\<close>; they persist or delete
  the secret in the cluster and leave the job object as it is. Key objects and byte
  strings are opaque strings.
\<close>

record 'c pluginEnv =
  MakePodName :: "string \<Rightarrow> string \<Rightarrow> int \<Rightarrow> string"
  rsa_GenerateKey :: "nat \<Rightarrow> error + string"
  x509_MarshalPKCS1PrivateKey :: "string \<Rightarrow> string"
  pem_EncodeToMemory :: "string \<Rightarrow> string \<Rightarrow> string"
  ssh_NewPublicKey :: "string \<Rightarrow> error + string"
  ssh_MarshalAuthorizedKey :: "string \<Rightarrow> string"
  CreateSecret :: "Job \<Rightarrow> 'c \<Rightarrow> (string \<rightharpoonup> string) \<Rightarrow> string \<Rightarrow> error option"
  DeleteSecret :: "Job \<Rightarrow> 'c \<Rightarrow> string \<Rightarrow> error option"

text \<open>
  The calls a hook makes that reach outside the process (the random source, the
  cluster API), in the order it makes them. Log lines (\<^verbatim>\<open>klog.Errorf\<close>) are left out.
\<close>

datatype pluginCall =
  Call_GenerateKey nat
| Call_CreateSecret string string "string \<rightharpoonup> string"
| Call_DeleteSecret string string

definition generateRsaKey ::
  "'c pluginEnv \<Rightarrow> sshConsts \<Rightarrow> Job \<Rightarrow> pluginCall list \<times> (error + (string \<rightharpoonup> string))" where
  "generateRsaKey E K job =
     (let bitSize = 1024 in
      case rsa_GenerateKey E bitSize of
        Inl err \<Rightarrow> ([Call_GenerateKey bitSize], Inl err)
      | Inr privateKey \<Rightarrow>
          (let privateKeyBytes =
                 pem_EncodeToMemory E ''RSA PRIVATE KEY'' (x509_MarshalPKCS1PrivateKey E privateKey)
           in case ssh_NewPublicKey E privateKey of
                Inl err \<Rightarrow> ([Call_GenerateKey bitSize], Inl err)
              | Inr publicRsaKey \<Rightarrow>
                  (let publicKeyBytes = ssh_MarshalAuthorizedKey E publicRsaKey;
                       data = Map.empty;
                       data = data(SSHPrivateKey K \<mapsto> privateKeyBytes);
                       data = data(SSHPublicKey K \<mapsto> publicKeyBytes);
                       data = data(SSHConfig K \<mapsto> generateSSHConfig (MakePodName E) job)
                   in ([Call_GenerateKey bitSize], Inr data))))"

text \<open>Reading a key of a Go map that may be nil: the zero value when the key is absent.\<close>

definition mapIndex :: "(string \<rightharpoonup> string) option \<Rightarrow> string \<Rightarrow> string" where
  "mapIndex m k = (case m of None \<Rightarrow> [] | Some f \<Rightarrow> (case f k of None \<Rightarrow> [] | Some v \<Rightarrow> v))"

text \<open>
  \<^verbatim>\<open>OnJobAdd\<close> returns what the call does (the error, or a panic where it assigns to a
  nil map), the job it worked on, and the outside calls it made.
\<close>

definition OnJobAdd ::
  "'c pluginEnv \<Rightarrow> sshConsts \<Rightarrow> 'c sshPlugin \<Rightarrow> Job
     \<Rightarrow> error option outcome \<times> Job \<times> pluginCall list" where
  "OnJobAdd E K sp job =
     (if mapIndex (ControlledResources (Job_Status job)) (''plugin-'' @ Name sp) = Name sp
      then (Return None, job, [])
      else
        (case generateRsaKey E K job of
           (calls, Inl err) \<Rightarrow> (Return (Some err), job, calls)
         | (calls, Inr data) \<Rightarrow>
             (let calls = calls @ [Call_CreateSecret (Job_Namespace job) (secretName sp job) data]
              in case CreateSecret E job (KubeClients (Clientset sp)) data (secretName sp job) of
                   Some err \<Rightarrow>
                     (Return (Some (''create secret for job <'' @ Job_Namespace job @ ''/''
                                     @ Job_Name job @ ''> with ssh plugin failed for '' @ err)),
                      job, calls)
                 | None \<Rightarrow>
                     (case ControlledResources (Job_Status job) of
                        None \<Rightarrow> (Panics, job, calls)
                      | Some m \<Rightarrow>
                          (Return None,
                           job\<lparr>Job_Status := (Job_Status job)
                                 \<lparr>ControlledResources := Some (m(''plugin-'' @ Name sp \<mapsto> Name sp))\<rparr>\<rparr>,
                           calls)))))"

definition OnJobDelete ::
  "'c pluginEnv \<Rightarrow> 'c sshPlugin \<Rightarrow> Job \<Rightarrow> error option \<times> pluginCall list" where
  "OnJobDelete E sp job =
     (DeleteSecret E job (KubeClients (Clientset sp)) (secretName sp job),
      [Call_DeleteSecret (Job_Namespace job) (secretName sp job)])"

section \<open>The controller entry point\<close>

text \<open>
  \<^verbatim>\<open>options.ServerOption\<close> and \<^verbatim>\<open>rest.Config\<close>, with the fields that \<^verbatim>\<open>Run\<close> and
  \<^verbatim>\<open>buildConfig\<close> use. A \<^verbatim>\<open>float32\<close> is only copied, so it is kept as its 32 bits.
\<close>

record ServerOption =
  Master :: string
  Kubeconfig :: string
  KubeAPIQPS :: "32 word"
  KubeAPIBurst :: int
  HealthzBindAddress :: string
  EnableLeaderElection :: bool
  LockObjectNamespace :: string
  WorkerThreads :: "32 word"
  SchedulerName :: string

record restConfig =
  QPS :: "32 word"
  Burst :: int
  UserAgent :: string

text \<open>The only \<^verbatim>\<open>context.Context\<close> that \<^verbatim>\<open>Run\<close> builds is \<^verbatim>\<open>context.TODO()\<close>.\<close>

datatype ctx = TODO

text \<open>
  The functions of client-go, of the Go library and of other packages of the
  repository that \<^verbatim>\<open>Run\<close> calls. \<open>NewForConfigOrDie\<close> says whether the two clients of
  \<^verbatim>\<open>startControllers\<close> can be built (it panics otherwise). \<open>receiveDone\<close> is what the
  receive \<^verbatim>\<open><-ctx.Done()\<close> at the end of the controller callback does, with the four
  controllers running beside it: \<^verbatim>\<open>context.TODO()\<close> is never cancelled, so an execution
  blocks there unless the process ends; the model leaves the outcome open, also
  to a return, so that the statement after the call is reached.
  \<open>leaderelection_RunOrDie\<close> is what the election loop does with the lock and the three
  durations, in seconds.
\<close>

record serverEnv =
  BuildConfigFromFlags :: "string \<Rightarrow> string \<Rightarrow> error + restConfig"
  InClusterConfig :: "error + restConfig"
  StartHealthz :: "string \<Rightarrow> string \<Rightarrow> error option"
  NewForConfigOrDie :: "restConfig \<Rightarrow> bool"
  receiveDone :: "ctx \<Rightarrow> unit outcome"
  AddUserAgent :: "restConfig \<Rightarrow> string \<Rightarrow> restConfig"
  NewForConfig :: "restConfig \<Rightarrow> error + string"
  os_Hostname :: "error + string"
  uuid_NewUUID :: string
  resourcelock_New :: "string \<Rightarrow> string \<Rightarrow> string \<Rightarrow> string \<Rightarrow> error + string"
  leaderelection_RunOrDie :: "string \<Rightarrow> nat \<Rightarrow> nat \<Rightarrow> nat \<Rightarrow> unit outcome"

datatype serverCall =
  Call_BuildConfigFromFlags string string
| Call_InClusterConfig
| Call_StartHealthz string string
| Call_startControllers
| Call_run ctx
| Call_NewForConfig
| Call_StartRecordingToSink string
| Call_Hostname
| Call_NewUUID
| Call_resourcelock_New string string string string
| Call_RunOrDie

definition leaseDuration :: nat where "leaseDuration = 15"
definition renewDeadline :: nat where "renewDeadline = 10"
definition retryPeriod :: nat where "retryPeriod = 5"

definition buildConfig ::
  "serverEnv \<Rightarrow> ServerOption \<Rightarrow> serverCall list \<times> (error + restConfig)" where
  "buildConfig E opt =
     (let master = Master opt;
          kubeconfig = Kubeconfig opt;
          (calls, r) =
            (if master \<noteq> [] \<or> kubeconfig \<noteq> []
             then ([Call_BuildConfigFromFlags master kubeconfig],
                   BuildConfigFromFlags E master kubeconfig)
             else ([Call_InClusterConfig], InClusterConfig E))
      in case r of
           Inl err \<Rightarrow> (calls, Inl err)
         | Inr cfg \<Rightarrow> (calls, Inr (cfg\<lparr>QPS := KubeAPIQPS opt, Burst := KubeAPIBurst opt\<rparr>)))"

text \<open>
  \<^verbatim>\<open>startControllers\<close> builds the clients and the four controllers and returns the
  callback, which starts the controllers as goroutines and then waits for the
  context.
\<close>

definition startControllers ::
  "serverEnv \<Rightarrow> restConfig \<Rightarrow> ServerOption \<Rightarrow> (ctx \<Rightarrow> unit outcome) outcome" where
  "startControllers E config opt =
     (if NewForConfigOrDie E config then Return (\<lambda>ctx. receiveDone E ctx) else Panics)"

text \<open>
  The part of \<^verbatim>\<open>Run\<close> after the test of \<^verbatim>\<open>opt.EnableLeaderElection\<close>, with the calls
  made so far.
\<close>

definition electLeader ::
  "serverEnv \<Rightarrow> ServerOption \<Rightarrow> restConfig \<Rightarrow> serverCall list
     \<Rightarrow> error option outcome \<times> serverCall list" where
  "electLeader E opt config calls =
     (let calls = calls @ [Call_NewForConfig] in
      case NewForConfig E (AddUserAgent E config ''leader-election'') of
        Inl err \<Rightarrow> (Return (Some err), calls)
      | Inr leaderElectionClient \<Rightarrow>
          (let calls = calls @ [Call_StartRecordingToSink (LockObjectNamespace opt), Call_Hostname] in
           case os_Hostname E of
             Inl err \<Rightarrow> (Return (Some (''unable to get hostname: '' @ err)), calls)
           | Inr hostname \<Rightarrow>
               (let id = hostname @ ''_'' @ uuid_NewUUID E;
                    calls = calls @ [Call_NewUUID,
                      Call_resourcelock_New ''configmaps'' (LockObjectNamespace opt)
                        ''vc-controllers'' id]
                in case resourcelock_New E ''configmaps'' (LockObjectNamespace opt)
                          ''vc-controllers'' id of
                     Inl err \<Rightarrow>
                       (Return (Some (''couldn'' @ [CHR 0x27] @ ''t create resource lock: '' @ err)),
                        calls)
                   | Inr rl \<Rightarrow>
                       (let calls = calls @ [Call_RunOrDie] in
                        case leaderelection_RunOrDie E rl leaseDuration renewDeadline retryPeriod of
                          Return u \<Rightarrow> (Return (Some ''lost lease''), calls)
                        | Panics \<Rightarrow> (Panics, calls)
                        | NeverReturns \<Rightarrow> (NeverReturns, calls)
                        | ProcessExits \<Rightarrow> (ProcessExits, calls)))))"

definition Run :: "serverEnv \<Rightarrow> ServerOption \<Rightarrow> error option outcome \<times> serverCall list" where
  "Run E opt =
     (case buildConfig E opt of
        (calls, Inl err) \<Rightarrow> (Return (Some err), calls)
      | (calls, Inr config) \<Rightarrow>
          (let calls = calls @ [Call_StartHealthz (HealthzBindAddress opt) ''volcano-controller''] in
           case StartHealthz E (HealthzBindAddress opt) ''volcano-controller'' of
             Some err \<Rightarrow> (Return (Some err), calls)
           | None \<Rightarrow>
               (let calls = calls @ [Call_startControllers] in
                case startControllers E config opt of
                  Return run \<Rightarrow>
                    if \<not> EnableLeaderElection opt then
                      (let calls = calls @ [Call_run TODO] in
                       case run TODO of
                         Return u \<Rightarrow> (Return (Some ''finished without leader elect''), calls)
                       | Panics \<Rightarrow> (Panics, calls)
                       | NeverReturns \<Rightarrow> (NeverReturns, calls)
                       | ProcessExits \<Rightarrow> (ProcessExits, calls))
                    else electLeader E opt config calls
                | Panics \<Rightarrow> (Panics, calls)
                | NeverReturns \<Rightarrow> (NeverReturns, calls)
                | ProcessExits \<Rightarrow> (ProcessExits, calls))))"

section \<open>Reading the generated text\<close>

text \<open>
  The lines of a text, each ended by a newline, and the number of lines that open a
  \<^verbatim>\<open>Host\<close> entry; these say how many entries a reader of the generated configuration
  finds in it.
\<close>

fun textLines :: "string \<Rightarrow> string list" where
  "textLines [] = []"
| "textLines (c # cs) =
     (if c = CHR ''\<newline>'' then [] # textLines cs
      else (case textLines cs of [] \<Rightarrow> [[c]] | l # ls \<Rightarrow> (c # l) # ls))"

definition hostEntryCount :: "string \<Rightarrow> nat" where
  "hostEntryCount txt = length (filter (\<lambda>l. take 5 l = ''Host '') (textLines txt))"

text \<open>
  The option that one argument names when it is read as a flag, in the syntax that
  \<^verbatim>\<open>parseOne\<close> accepts (\<^verbatim>\<open>-name\<close>, \<^verbatim>\<open>--name\<close>, \<^verbatim>\<open>-name=value\<close>, \<^verbatim>\<open>--name=value\<close>);
  for stating which argument lists carry an option.
\<close>

definition optionName :: "string \<Rightarrow> string option" where
  "optionName s =
     (if length s < 2 \<or> s ! 0 \<noteq> CHR ''-'' then None
      else (let name = drop (if s ! 1 = CHR ''-'' then 2 else 1) s
            in if length name = 0 \<or> name ! 0 = CHR ''-'' \<or> name ! 0 = CHR ''='' then None
               else Some (fst (splitValue name))))"

text \<open>
  No container whose mount slice has spare capacity shares the slice's array with
  another container of the list; for stating on which pods every container keeps the
  mounts it had.
\<close>

definition mountsUnshared :: "Container list \<Rightarrow> bool" where
  "mountsUnshared cs =
     list_all (\<lambda>i. list_all (\<lambda>j.
         i = j \<or> VolumeMounts_cap (cs ! i) \<le> length (VolumeMounts (cs ! i))
         \<or> VolumeMounts_array (cs ! i) \<noteq> VolumeMounts_array (cs ! j))
       [0..<length cs]) [0..<length cs]"

section \<open>Example inputs\<close>

text \<open>
  Concrete values on which the properties below are evaluated: a set of constants, a
  job with one task of three replicas, the same job after the plugin has marked it,
  a pod with two containers, and environments in which the outside calls fail or
  succeed.
\<close>

definition exampleConsts :: sshConsts where
  "exampleConsts =
     \<lparr>SSHAbsolutePath = ''/root/.ssh'', SSHRelativePath = ''.ssh'', SSHPrivateKey = ''id_rsa'',
      SSHPublicKey = ''id_rsa.pub'', SSHAuthorizedKeys = ''authorized_keys'',
      SSHConfig = ''config'', ConfigMapMountPath = ''/etc/volcano''\<rparr>"

definition exampleJob :: Job where
  "exampleJob =
     \<lparr>Job_Name = ''job'', Job_Namespace = ''ns'', Job_UID = ''u1'',
      Job_Spec = \<lparr>Tasks = [\<lparr>Task_Name = ''T'', Replicas = 3,
        Template = \<lparr>Template_Spec =
          \<lparr>Volumes = [], Containers = [], Hostname = [], Subdomain = []\<rparr>\<rparr>\<rparr>]\<rparr>,
      Job_Status = \<lparr>ControlledResources = Some Map.empty\<rparr>\<rparr>"

definition markedJob :: Job where
  "markedJob =
     exampleJob\<lparr>Job_Status := \<lparr>ControlledResources = Some [''plugin-ssh'' \<mapsto> ''ssh'']\<rparr>\<rparr>"

definition examplePod :: Pod where
  "examplePod =
     \<lparr>Pod_Name = ''job-T-0'',
      Pod_Spec = \<lparr>Volumes = [\<lparr>Volume_Name = ''data'', Secret = None\<rparr>],
        Containers =
          [\<lparr>Container_Name = ''main'',
            VolumeMounts = [\<lparr>MountPath = ''/data'', SubPath = [], VolumeMount_Name = ''data''\<rparr>],
            VolumeMounts_array = 1, VolumeMounts_offset = 0, VolumeMounts_cap = 4\<rparr>,
           \<lparr>Container_Name = ''sidecar'', VolumeMounts = [],
            VolumeMounts_array = 0, VolumeMounts_offset = 0, VolumeMounts_cap = 0\<rparr>],
        Hostname = [], Subdomain = []\<rparr>\<rparr>"

text \<open>
  A pod whose two containers have mount slices on one array of four cells, of which
  two are written: the first slice reads one element, the second two.
\<close>

definition sharedArrayPod :: Pod where
  "sharedArrayPod =
     \<lparr>Pod_Name = ''job-T-0'',
      Pod_Spec = \<lparr>Volumes = [],
        Containers =
          [\<lparr>Container_Name = ''main'',
            VolumeMounts = [\<lparr>MountPath = ''/data'', SubPath = [], VolumeMount_Name = ''data''\<rparr>],
            VolumeMounts_array = 1, VolumeMounts_offset = 0, VolumeMounts_cap = 4\<rparr>,
           \<lparr>Container_Name = ''sidecar'',
            VolumeMounts = [\<lparr>MountPath = ''/data'', SubPath = [], VolumeMount_Name = ''data''\<rparr>,
                            \<lparr>MountPath = ''/logs'', SubPath = [], VolumeMount_Name = ''logs''\<rparr>],
            VolumeMounts_array = 1, VolumeMounts_offset = 0, VolumeMounts_cap = 4\<rparr>],
        Hostname = [], Subdomain = []\<rparr>\<rparr>"

definition examplePlugin :: "unit sshPlugin" where
  "examplePlugin =
     \<lparr>pluginArguments = [], Clientset = \<lparr>KubeClients = ()\<rparr>, noRoot = False,
      sshKeyFilePath = ''/root/.ssh''\<rparr>"

text \<open>
  An environment of the plugin, given what key generation and secret creation
  return.
\<close>

definition exampleEnv :: "(error + string) \<Rightarrow> error option \<Rightarrow> unit pluginEnv" where
  "exampleEnv key created =
     \<lparr>MakePodName = (\<lambda>j t i. j @ ''-'' @ t @ ''-'' @ (if i = 0 then ''0'' else if i = 1 then ''1'' else ''2'')),
      rsa_GenerateKey = (\<lambda>bits. key),
      x509_MarshalPKCS1PrivateKey = (\<lambda>k. k),
      pem_EncodeToMemory = (\<lambda>t b. t @ b),
      ssh_NewPublicKey = (\<lambda>k. Inr (''pub'' @ k)),
      ssh_MarshalAuthorizedKey = (\<lambda>p. ''ssh-rsa '' @ p),
      CreateSecret = (\<lambda>job c data name. created),
      DeleteSecret = (\<lambda>job c name. None)\<rparr>"

definition exampleOption :: "bool \<Rightarrow> ServerOption" where
  "exampleOption elect =
     \<lparr>Master = [], Kubeconfig = ''/etc/kube/config'', KubeAPIQPS = 0, KubeAPIBurst = 100,
      HealthzBindAddress = '':11252'', EnableLeaderElection = elect,
      LockObjectNamespace = ''volcano-system'', WorkerThreads = 3, SchedulerName = ''volcano''\<rparr>"

text \<open>
  An environment of \<^verbatim>\<open>Run\<close>, given what building the configuration returns and what
  the wait of the controller callback does.
\<close>

definition exampleServerEnv :: "(error + restConfig) \<Rightarrow> unit outcome \<Rightarrow> serverEnv" where
  "exampleServerEnv cfg waited =
     \<lparr>BuildConfigFromFlags = (\<lambda>master kubeconfig. cfg),
      InClusterConfig = cfg,
      StartHealthz = (\<lambda>address name. None),
      NewForConfigOrDie = (\<lambda>config. True),
      receiveDone = (\<lambda>c. waited),
      AddUserAgent = (\<lambda>config agent. config\<lparr>UserAgent := agent\<rparr>),
      NewForConfig = (\<lambda>config. Inr ''client''),
      os_Hostname = Inr ''host'',
      uuid_NewUUID = ''uuid'',
      resourcelock_New = (\<lambda>kind ns name id. Inr ''lock''),
      leaderelection_RunOrDie = (\<lambda>lock lease renew retry. ProcessExits)\<rparr>"

section \<open>Properties\<close>

declare replicaLoop.simps [simp del]
declare Parse.simps [simp del]

subsection \<open>The secret name\<close>

text \<open>
  Claim C4. The name of the secret is the job's name, the job's uid and the plugin's
  name, joined by dashes, and the plugin's name is the constant \<^verbatim>\<open>ssh\<close>. It has no other
  input: any plugin value (whatever its arguments, its client set and its parsed flags)
  and any job that agrees on name and uid give the same secret name.
\<close>

theorem secretName_deterministic:
  "secretName sp job = Job_Name job @ ''-'' @ Job_UID job @ ''-'' @ Name sp \<and>
   Name sp = ''ssh'' \<and>
   (\<forall>sp' job'. Job_Name job' = Job_Name job \<and> Job_UID job' = Job_UID job
        \<longrightarrow> secretName sp' job' = secretName sp job)"
  by (simp add: secretName_def Name_def)

theorem secretName_deterministic_witness:
  "secretName \<lparr>pluginArguments = [''--no-root''], Clientset = \<lparr>KubeClients = ()\<rparr>,
               noRoot = True, sshKeyFilePath = ''/x''\<rparr>
     \<lparr>Job_Name = ''job'', Job_Namespace = ''other'', Job_UID = ''u1'',
      Job_Spec = \<lparr>Tasks = []\<rparr>, Job_Status = \<lparr>ControlledResources = None\<rparr>\<rparr>
   = ''job-u1-ssh''
   \<and> secretName \<lparr>pluginArguments = [''--no-root''], Clientset = \<lparr>KubeClients = ()\<rparr>,
               noRoot = True, sshKeyFilePath = ''/x''\<rparr>
     \<lparr>Job_Name = ''job'', Job_Namespace = ''other'', Job_UID = ''u1'',
      Job_Spec = \<lparr>Tasks = []\<rparr>, Job_Status = \<lparr>ControlledResources = None\<rparr>\<rparr>
   = secretName \<lparr>pluginArguments = [], Clientset = \<lparr>KubeClients = ()\<rparr>,
               noRoot = False, sshKeyFilePath = ''/root/.ssh''\<rparr>
     \<lparr>Job_Name = ''job'', Job_Namespace = ''ns'', Job_UID = ''u1'',
      Job_Spec = \<lparr>Tasks = []\<rparr>, Job_Status = \<lparr>ControlledResources = None\<rparr>\<rparr>"
proof -
  let ?sp = "\<lparr>pluginArguments = [], Clientset = \<lparr>KubeClients = ()\<rparr>,
               noRoot = False, sshKeyFilePath = ''/root/.ssh''\<rparr>"
  let ?job = "\<lparr>Job_Name = ''job'', Job_Namespace = ''ns'', Job_UID = ''u1'',
      Job_Spec = \<lparr>Tasks = []\<rparr>, Job_Status = \<lparr>ControlledResources = None\<rparr>\<rparr>"
  let ?sp' = "\<lparr>pluginArguments = [''--no-root''], Clientset = \<lparr>KubeClients = ()\<rparr>,
               noRoot = True, sshKeyFilePath = ''/x''\<rparr>"
  let ?job' = "\<lparr>Job_Name = ''job'', Job_Namespace = ''other'', Job_UID = ''u1'',
      Job_Spec = \<lparr>Tasks = []\<rparr>, Job_Status = \<lparr>ControlledResources = None\<rparr>\<rparr>"
  note t = secretName_deterministic [of ?sp ?job]
  have same: "secretName ?sp' ?job' = secretName ?sp ?job"
    using t [THEN conjunct2, THEN conjunct2, THEN spec [of _ ?sp'], THEN spec [of _ ?job']]
    by simp
  have name: "secretName ?sp ?job = ''job-u1-ssh''"
    using t [THEN conjunct1] t [THEN conjunct2, THEN conjunct1] by simp
  show ?thesis
    using same name by simp
qed

subsection \<open>The generated configuration\<close>

lemma replicaLoop_done:
  "\<not> i < sint (Replicas ts) \<Longrightarrow> replicaLoop mk job ts i config = config"
  by (subst replicaLoop.simps) simp

lemma replicaLoop_explicit:
  "Hostname (Template_Spec (Template ts)) \<noteq> [] \<Longrightarrow> i < sint (Replicas ts) \<Longrightarrow>
   replicaLoop mk job ts i config =
     config @ hostEntry (Hostname (Template_Spec (Template ts)))
       (if Subdomain (Template_Spec (Template ts)) = [] then Job_Name job
        else Subdomain (Template_Spec (Template ts)))"
  by (subst replicaLoop.simps) (simp add: hostEntry_def Let_def)

lemma replicaLoop_step:
  "Hostname (Template_Spec (Template ts)) = [] \<Longrightarrow> i < sint (Replicas ts) \<Longrightarrow>
   replicaLoop mk job ts i config =
     replicaLoop mk job ts (i + 1)
       (config @ hostEntry (mk (Job_Name job) (Task_Name ts) i)
         (if Subdomain (Template_Spec (Template ts)) = [] then Job_Name job
          else Subdomain (Template_Spec (Template ts))))"
  by (subst replicaLoop.simps) (simp add: hostEntry_def Let_def)

text \<open>
  A task without an explicit hostname gets one entry for each replica index from 0 up
  to, and not including, its replica count; a replica count that is zero or negative
  gives none.
\<close>

lemma replicaLoop_generated:
  "Hostname (Template_Spec (Template ts)) = [] \<Longrightarrow>
   replicaLoop mk job ts i config =
     config @ concat (map (\<lambda>k. hostEntry (mk (Job_Name job) (Task_Name ts) k)
         (if Subdomain (Template_Spec (Template ts)) = [] then Job_Name job
          else Subdomain (Template_Spec (Template ts))))
       [i..sint (Replicas ts) - 1])"
proof (induction "nat (sint (Replicas ts) - i)" arbitrary: i config)
  case 0
  then show ?case by (simp add: replicaLoop_done)
next
  case (Suc n)
  then have lt: "i < sint (Replicas ts)" and n: "n = nat (sint (Replicas ts) - (i + 1))"
    by linarith+
  have u: "[i..sint (Replicas ts) - 1] = i # [i + 1..sint (Replicas ts) - 1]"
    using lt by (simp add: upto_rec1)
  show ?case
    using Suc.hyps(1) [OF n Suc.prems] lt Suc.prems
    by (simp add: replicaLoop_step u)
qed

lemma tasksLoop_append:
  "tasksLoop mk job (xs @ ys) config = tasksLoop mk job ys (tasksLoop mk job xs config)"
  by (induction xs arbitrary: config) simp_all

lemma textLines_line:
  "CHR ''\<newline>'' \<notin> set l \<Longrightarrow> textLines (l @ CHR ''\<newline>'' # rest) = l # textLines rest"
  by (induction l) auto

lemma hostEntryCount_header_entries:
  assumes "\<forall>h \<in> set hs. CHR ''\<newline>'' \<notin> set h" and "CHR ''\<newline>'' \<notin> set sd"
  shows "textLines (concat (map (\<lambda>h. hostEntry h sd) hs)) =
           concat (map (\<lambda>h. [''Host '' @ h, ''  HostName '' @ h @ ''.'' @ sd]) hs)"
  using assms
proof (induction hs)
  case Nil
  then show ?case by simp
next
  case (Cons h hs)
  have a: "CHR ''\<newline>'' \<notin> set (''Host '' @ h)"
    using Cons.prems by simp
  have b: "CHR ''\<newline>'' \<notin> set (''  HostName '' @ h @ ''.'' @ sd)"
    using Cons.prems by simp
  have "hostEntry h sd @ rest =
          (''Host '' @ h) @ CHR ''\<newline>'' # ((''  HostName '' @ h @ ''.'' @ sd) @ CHR ''\<newline>'' # rest)" for rest
    by (simp add: hostEntry_def)
  then have "textLines (hostEntry h sd @ rest) =
          (''Host '' @ h) # (''  HostName '' @ h @ ''.'' @ sd) # textLines rest" for rest
    using textLines_line [OF a] textLines_line [OF b] by simp
  then show ?case
    using Cons by simp
qed

lemma textLines_header:
  "textLines (sshConfigHeader @ rest) =
     ''StrictHostKeyChecking no'' # ''UserKnownHostsFile /dev/null'' # textLines rest"
proof -
  have a: "CHR ''\<newline>'' \<notin> set ''StrictHostKeyChecking no''" by simp
  have b: "CHR ''\<newline>'' \<notin> set ''UserKnownHostsFile /dev/null''" by simp
  have "sshConfigHeader @ rest = ''StrictHostKeyChecking no'' @ CHR ''\<newline>'' #
          (''UserKnownHostsFile /dev/null'' @ CHR ''\<newline>'' # rest)"
    by (simp add: sshConfigHeader_def)
  then show ?thesis
    by (simp only: textLines_line [OF a] textLines_line [OF b])
qed

lemma hostEntryCount_entries:
  assumes "\<forall>h \<in> set hs. CHR ''\<newline>'' \<notin> set h" and "CHR ''\<newline>'' \<notin> set sd"
  shows "hostEntryCount (sshConfigHeader @ concat (map (\<lambda>h. hostEntry h sd) hs)) = length hs"
proof -
  have "length (filter (\<lambda>l. take 5 l = ''Host '')
          (concat (map (\<lambda>h. [''Host '' @ h, ''  HostName '' @ h @ ''.'' @ sd]) hs))) = length hs"
    by (induction hs) simp_all
  then show ?thesis
    using hostEntryCount_header_entries [OF assms]
    by (simp add: hostEntryCount_def textLines_header)
qed

lemma hostEntryCount_one:
  assumes "CHR ''\<newline>'' \<notin> set h" and "CHR ''\<newline>'' \<notin> set sd"
  shows "hostEntryCount (hostEntry h sd) = 1"
  using hostEntryCount_header_entries [of "[h]" sd] assms
  by (simp add: hostEntryCount_def)

lemma generateSSHConfig_one_task:
  assumes "Tasks (Job_Spec job) = [ts]"
      and "Hostname (Template_Spec (Template ts)) = []"
      and "Subdomain (Template_Spec (Template ts)) = []"
  shows "generateSSHConfig mk job =
           sshConfigHeader @ concat (map (\<lambda>h. hostEntry h (Job_Name job))
             (map (mk (Job_Name job) (Task_Name ts)) [0..sint (Replicas ts) - 1]))"
  using assms
  by (simp add: generateSSHConfig_def sshConfigHeader_def replicaLoop_generated comp_def)

text \<open>
  Claim C1. For a job with exactly one task, with three replicas and neither hostname
  nor subdomain in its pod template, the generated text is the two header lines
  followed by exactly three entries: those of the pod names that \<^verbatim>\<open>MakePodName\<close> gives for
  the job's name, the task's name and the indices 0, 1 and 2, in this order, each
  mapping the pod name to the pod name, a dot, and the job's name. When the job's name
  and the pod names contain no newline, the text has exactly three lines that open a
  \<^verbatim>\<open>Host\<close> entry.
\<close>

theorem generateSSHConfig_three_replicas:
  assumes "Tasks (Job_Spec job) = [ts]"
      and "Replicas ts = 3"
      and "Hostname (Template_Spec (Template ts)) = []"
      and "Subdomain (Template_Spec (Template ts)) = []"
  shows "generateSSHConfig mk job =
           sshConfigHeader
           @ hostEntry (mk (Job_Name job) (Task_Name ts) 0) (Job_Name job)
           @ hostEntry (mk (Job_Name job) (Task_Name ts) 1) (Job_Name job)
           @ hostEntry (mk (Job_Name job) (Task_Name ts) 2) (Job_Name job)
         \<and> (CHR ''\<newline>'' \<notin> set (Job_Name job)
              \<and> (\<forall>i. CHR ''\<newline>'' \<notin> set (mk (Job_Name job) (Task_Name ts) i))
            \<longrightarrow> hostEntryCount (generateSSHConfig mk job) = 3)"
proof -
  have r: "[0..sint (Replicas ts) - 1] = [0, 1, 2]"
    using assms(2) by (simp add: upto_rec1)
  have g: "generateSSHConfig mk job =
           sshConfigHeader @ concat (map (\<lambda>h. hostEntry h (Job_Name job))
             (map (mk (Job_Name job) (Task_Name ts)) [0, 1, 2]))"
    using generateSSHConfig_one_task [OF assms(1) assms(3) assms(4), of mk] r by simp
  have c: "hostEntryCount (generateSSHConfig mk job) = 3"
    if "CHR ''\<newline>'' \<notin> set (Job_Name job)"
      and "\<forall>i. CHR ''\<newline>'' \<notin> set (mk (Job_Name job) (Task_Name ts) i)"
    unfolding g
    using hostEntryCount_entries [OF _ that(1),
            of "map (mk (Job_Name job) (Task_Name ts)) [0, 1, 2]"] that(2)
    by simp
  show ?thesis
    using g c by simp
qed

theorem generateSSHConfig_three_replicas_witness:
  "generateSSHConfig (\<lambda>j t i. j @ ''-'' @ t @ ''-'' @ (if i = 0 then ''0'' else if i = 1 then ''1'' else ''2''))
     \<lparr>Job_Name = ''job'', Job_Namespace = ''ns'', Job_UID = ''u1'',
      Job_Spec = \<lparr>Tasks = [\<lparr>Task_Name = ''T'', Replicas = 3,
        Template = \<lparr>Template_Spec = \<lparr>Volumes = [], Containers = [], Hostname = [], Subdomain = []\<rparr>\<rparr>\<rparr>]\<rparr>,
      Job_Status = \<lparr>ControlledResources = None\<rparr>\<rparr>
   = ''StrictHostKeyChecking no\<newline>UserKnownHostsFile /dev/null\<newline>Host job-T-0\<newline>  HostName job-T-0.job\<newline>Host job-T-1\<newline>  HostName job-T-1.job\<newline>Host job-T-2\<newline>  HostName job-T-2.job\<newline>''
   \<and> hostEntryCount (generateSSHConfig (\<lambda>j t i. j @ ''-'' @ t @ ''-'' @ (if i = 0 then ''0'' else if i = 1 then ''1'' else ''2''))
     \<lparr>Job_Name = ''job'', Job_Namespace = ''ns'', Job_UID = ''u1'',
      Job_Spec = \<lparr>Tasks = [\<lparr>Task_Name = ''T'', Replicas = 3,
        Template = \<lparr>Template_Spec = \<lparr>Volumes = [], Containers = [], Hostname = [], Subdomain = []\<rparr>\<rparr>\<rparr>]\<rparr>,
      Job_Status = \<lparr>ControlledResources = None\<rparr>\<rparr>) = 3"
  using generateSSHConfig_three_replicas [of
     "\<lparr>Job_Name = ''job'', Job_Namespace = ''ns'', Job_UID = ''u1'',
      Job_Spec = \<lparr>Tasks = [\<lparr>Task_Name = ''T'', Replicas = 3,
        Template = \<lparr>Template_Spec = \<lparr>Volumes = [], Containers = [], Hostname = [], Subdomain = []\<rparr>\<rparr>\<rparr>]\<rparr>,
      Job_Status = \<lparr>ControlledResources = None\<rparr>\<rparr>"
     "\<lparr>Task_Name = ''T'', Replicas = 3,
        Template = \<lparr>Template_Spec = \<lparr>Volumes = [], Containers = [], Hostname = [], Subdomain = []\<rparr>\<rparr>\<rparr>"
     "(\<lambda>j t i. j @ ''-'' @ t @ ''-'' @ (if i = 0 then ''0'' else if i = 1 then ''1'' else ''2''))"]
  by (simp add: sshConfigHeader_def hostEntry_def split: if_splits)

lemma replicaLoop_first_only:
  assumes "Hostname (Template_Spec (Template ts)) \<noteq> []"
  shows "replicaLoop mk job ts 0 config =
           (if 0 < sint (Replicas ts)
            then config @ hostEntry (Hostname (Template_Spec (Template ts)))
                   (if Subdomain (Template_Spec (Template ts)) = [] then Job_Name job
                    else Subdomain (Template_Spec (Template ts)))
            else config)"
  using assms by (simp add: replicaLoop_explicit replicaLoop_done)

text \<open>
  Claim C2. For a task with an explicit hostname and three replicas, the loop over the
  replicas appends exactly one entry to the text, that of the hostname, and stops: the
  text after the task is the text before it followed by this one entry, whatever the
  text before is. In the text of the whole job, the task stands for this one entry
  between what the tasks before it and the tasks after it write. When the hostname, the
  subdomain and the job's name contain no newline, the text the task writes has exactly
  one line that opens a \<^verbatim>\<open>Host\<close> entry.
\<close>

theorem explicit_hostname_one_entry:
  assumes "Hostname (Template_Spec (Template ts)) \<noteq> []"
      and "Replicas ts = 3"
  shows "(\<forall>config. replicaLoop mk job ts 0 config =
            config @ hostEntry (Hostname (Template_Spec (Template ts)))
              (if Subdomain (Template_Spec (Template ts)) = [] then Job_Name job
               else Subdomain (Template_Spec (Template ts))))
         \<and> (\<forall>before after. Tasks (Job_Spec job) = before @ ts # after \<longrightarrow>
              generateSSHConfig mk job =
                tasksLoop mk job after
                  (tasksLoop mk job before sshConfigHeader
                   @ hostEntry (Hostname (Template_Spec (Template ts)))
                       (if Subdomain (Template_Spec (Template ts)) = [] then Job_Name job
                        else Subdomain (Template_Spec (Template ts)))))
         \<and> (CHR ''\<newline>'' \<notin> set (Hostname (Template_Spec (Template ts)))
              \<and> CHR ''\<newline>'' \<notin> set (Subdomain (Template_Spec (Template ts)))
              \<and> CHR ''\<newline>'' \<notin> set (Job_Name job)
            \<longrightarrow> hostEntryCount (replicaLoop mk job ts 0 []) = 1)"
proof -
  have lt: "0 < sint (Replicas ts)"
    using assms(2) by simp
  have one: "replicaLoop mk job ts 0 config =
            config @ hostEntry (Hostname (Template_Spec (Template ts)))
              (if Subdomain (Template_Spec (Template ts)) = [] then Job_Name job
               else Subdomain (Template_Spec (Template ts)))" for config
    using replicaLoop_explicit [OF assms(1) lt] .
  have gen: "generateSSHConfig mk job =
                tasksLoop mk job after
                  (tasksLoop mk job before sshConfigHeader
                   @ hostEntry (Hostname (Template_Spec (Template ts)))
                       (if Subdomain (Template_Spec (Template ts)) = [] then Job_Name job
                        else Subdomain (Template_Spec (Template ts))))"
    if "Tasks (Job_Spec job) = before @ ts # after" for before after
    using that
    by (simp add: generateSSHConfig_def sshConfigHeader_def tasksLoop_append one)
  have cnt: "hostEntryCount (replicaLoop mk job ts 0 []) = 1"
    if "CHR ''\<newline>'' \<notin> set (Hostname (Template_Spec (Template ts)))"
       "CHR ''\<newline>'' \<notin> set (Subdomain (Template_Spec (Template ts)))"
       "CHR ''\<newline>'' \<notin> set (Job_Name job)"
    using that by (simp add: one hostEntryCount_one)
  show ?thesis
    using one gen cnt by blast
qed

theorem explicit_hostname_one_entry_witness:
  "replicaLoop (\<lambda>j t i. j @ ''-'' @ t)
     \<lparr>Job_Name = ''job'', Job_Namespace = ''ns'', Job_UID = ''u1'',
      Job_Spec = \<lparr>Tasks = [\<lparr>Task_Name = ''T'', Replicas = 3,
        Template = \<lparr>Template_Spec = \<lparr>Volumes = [], Containers = [], Hostname = ''master'',
                                    Subdomain = []\<rparr>\<rparr>\<rparr>]\<rparr>,
      Job_Status = \<lparr>ControlledResources = None\<rparr>\<rparr>
     \<lparr>Task_Name = ''T'', Replicas = 3,
        Template = \<lparr>Template_Spec = \<lparr>Volumes = [], Containers = [], Hostname = ''master'',
                                    Subdomain = []\<rparr>\<rparr>\<rparr> 0 []
   = ''Host master\<newline>  HostName master.job\<newline>''
   \<and> generateSSHConfig (\<lambda>j t i. j @ ''-'' @ t)
     \<lparr>Job_Name = ''job'', Job_Namespace = ''ns'', Job_UID = ''u1'',
      Job_Spec = \<lparr>Tasks = [\<lparr>Task_Name = ''T'', Replicas = 3,
        Template = \<lparr>Template_Spec = \<lparr>Volumes = [], Containers = [], Hostname = ''master'',
                                    Subdomain = []\<rparr>\<rparr>\<rparr>]\<rparr>,
      Job_Status = \<lparr>ControlledResources = None\<rparr>\<rparr>
   = ''StrictHostKeyChecking no\<newline>UserKnownHostsFile /dev/null\<newline>Host master\<newline>  HostName master.job\<newline>''
   \<and> hostEntryCount (replicaLoop (\<lambda>j t i. j @ ''-'' @ t)
     \<lparr>Job_Name = ''job'', Job_Namespace = ''ns'', Job_UID = ''u1'',
      Job_Spec = \<lparr>Tasks = [\<lparr>Task_Name = ''T'', Replicas = 3,
        Template = \<lparr>Template_Spec = \<lparr>Volumes = [], Containers = [], Hostname = ''master'',
                                    Subdomain = []\<rparr>\<rparr>\<rparr>]\<rparr>,
      Job_Status = \<lparr>ControlledResources = None\<rparr>\<rparr>
     \<lparr>Task_Name = ''T'', Replicas = 3,
        Template = \<lparr>Template_Spec = \<lparr>Volumes = [], Containers = [], Hostname = ''master'',
                                    Subdomain = []\<rparr>\<rparr>\<rparr> 0 []) = 1"
proof -
  let ?ts = "\<lparr>Task_Name = ''T'', Replicas = 3,
        Template = \<lparr>Template_Spec = \<lparr>Volumes = [], Containers = [], Hostname = ''master'',
                                    Subdomain = []\<rparr>\<rparr>\<rparr>"
  let ?job = "\<lparr>Job_Name = ''job'', Job_Namespace = ''ns'', Job_UID = ''u1'',
      Job_Spec = \<lparr>Tasks = [?ts]\<rparr>, Job_Status = \<lparr>ControlledResources = None\<rparr>\<rparr>"
  let ?mk = "\<lambda>(j :: string) (t :: string) (i :: int). j @ ''-'' @ t"
  have h: "Hostname (Template_Spec (Template ?ts)) \<noteq> []" and r: "Replicas ?ts = 3"
    by simp_all
  note t = explicit_hostname_one_entry [of ?ts ?mk ?job, OF h r]
  have a: "replicaLoop ?mk ?job ?ts 0 [] = ''Host master\<newline>  HostName master.job\<newline>''"
    using t [THEN conjunct1, THEN spec [of _ "[]"]] by (simp add: hostEntry_def)
  have b: "generateSSHConfig ?mk ?job =
      ''StrictHostKeyChecking no\<newline>UserKnownHostsFile /dev/null\<newline>Host master\<newline>  HostName master.job\<newline>''"
    using t [THEN conjunct2, THEN conjunct1, THEN spec [of _ "[]"], THEN spec [of _ "[]"]]
    by (simp add: hostEntry_def sshConfigHeader_def)
  have c: "hostEntryCount (replicaLoop ?mk ?job ?ts 0 []) = 1"
    using t [THEN conjunct2, THEN conjunct2] by simp
  show ?thesis
    using a b c by simp
qed

subsection \<open>OnJobAdd\<close>

text \<open>
  Claim C3. When the job's controlled resources already map \<^verbatim>\<open>plugin-ssh\<close> to \<^verbatim>\<open>ssh\<close>,
  \<^verbatim>\<open>OnJobAdd\<close> returns \<^verbatim>\<open>nil\<close>, leaves the job as it is, and makes no outside call: no key
  is generated and no secret is created.
\<close>

theorem OnJobAdd_marked_noop:
  assumes "ControlledResources (Job_Status job) = Some m"
      and "m ''plugin-ssh'' = Some ''ssh''"
  shows "OnJobAdd E K sp job = (Return None, job, [])"
  using assms by (simp add: OnJobAdd_def mapIndex_def Name_def)

theorem OnJobAdd_marked_noop_witness:
  "OnJobAdd (exampleEnv (Inr ''key'') None) exampleConsts examplePlugin markedJob
     = (Return None, markedJob, [])"
proof -
  have m: "ControlledResources (Job_Status markedJob) = Some [''plugin-ssh'' \<mapsto> ''ssh'']"
    by (simp add: markedJob_def)
  have v: "[''plugin-ssh'' \<mapsto> ''ssh''] ''plugin-ssh'' = Some ''ssh''"
    by simp
  show ?thesis
    using OnJobAdd_marked_noop [OF m v] .
qed

lemma OnJobAdd_idempotent:
  assumes "OnJobAdd E K sp job = (Return None, job', calls)"
  shows "OnJobAdd E' K sp job' = (Return None, job', [])"
proof -
  have "mapIndex (ControlledResources (Job_Status job')) (''plugin-'' @ Name sp) = Name sp"
    using assms
    by (cases "generateRsaKey E K job")
       (auto simp: OnJobAdd_def mapIndex_def Name_def Let_def
             split: if_splits sum.splits option.splits)
  then show ?thesis
    by (simp add: OnJobAdd_def)
qed

lemma generateRsaKey_calls:
  "fst (generateRsaKey E K job) = [Call_GenerateKey 1024]"
  by (simp add: generateRsaKey_def Let_def split: sum.splits)

lemma generateRsaKey_fails_iff:
  "(\<exists>e. snd (generateRsaKey E K job) = Inl e) \<longleftrightarrow>
     (\<exists>e. rsa_GenerateKey E 1024 = Inl e)
     \<or> (\<exists>k e. rsa_GenerateKey E 1024 = Inr k \<and> ssh_NewPublicKey E k = Inl e)"
  by (auto simp: generateRsaKey_def Let_def split: sum.splits)

text \<open>
  Claim C7. In an invocation of \<^verbatim>\<open>OnJobAdd\<close> on a job that is not yet marked, when key
  generation fails (the RSA key or the SSH public key cannot be made) or the creation of
  the secret fails, \<^verbatim>\<open>OnJobAdd\<close> returns a non-nil error, the job is as it was before the
  call, and so the marker is still not set; an invocation that follows, in whatever
  environment, begins by generating a key again.
\<close>

theorem OnJobAdd_failure_unmarked:
  assumes "mapIndex (ControlledResources (Job_Status job)) ''plugin-ssh'' \<noteq> ''ssh''"
      and "(\<exists>e. rsa_GenerateKey E 1024 = Inl e)
           \<or> (\<exists>k e. rsa_GenerateKey E 1024 = Inr k \<and> ssh_NewPublicKey E k = Inl e)
           \<or> (\<exists>d e. snd (generateRsaKey E K job) = Inr d
                 \<and> CreateSecret E job (KubeClients (Clientset sp)) d (secretName sp job) = Some e)"
  shows "\<exists>err calls. OnJobAdd E K sp job = (Return (Some err), job, calls)
           \<and> mapIndex (ControlledResources (Job_Status job)) (''plugin-'' @ Name sp) \<noteq> Name sp
           \<and> (\<forall>E'. \<exists>r j c. OnJobAdd E' K sp job = (r, j, Call_GenerateKey 1024 # c))"
proof -
  have retry: "\<exists>r j c. OnJobAdd E' K sp job = (r, j, Call_GenerateKey 1024 # c)" for E' :: "'a pluginEnv"
    using assms(1) generateRsaKey_calls [of E' K job]
    by (cases "generateRsaKey E' K job")
       (auto simp: OnJobAdd_def Name_def Let_def split: sum.splits option.splits)
  have m: "mapIndex (ControlledResources (Job_Status job)) (''plugin-'' @ Name sp) \<noteq> Name sp"
    using assms(1) by (simp add: Name_def)
  have "(\<exists>e. snd (generateRsaKey E K job) = Inl e)
        \<or> (\<exists>d e. snd (generateRsaKey E K job) = Inr d
                 \<and> CreateSecret E job (KubeClients (Clientset sp)) d (secretName sp job) = Some e)"
    using assms(2) generateRsaKey_fails_iff [of E K job] by blast
  then have "\<exists>err calls. OnJobAdd E K sp job = (Return (Some err), job, calls)"
    using assms(1)
    by (cases "generateRsaKey E K job")
       (auto simp: OnJobAdd_def Name_def Let_def split: sum.splits option.splits)
  then show ?thesis
    using m retry by blast
qed

theorem OnJobAdd_failure_unmarked_witness:
  "(\<exists>err calls.
      OnJobAdd (exampleEnv (Inl ''no entropy'') None) exampleConsts examplePlugin exampleJob
        = (Return (Some err), exampleJob, calls)
      \<and> mapIndex (ControlledResources (Job_Status exampleJob)) (''plugin-'' @ Name examplePlugin)
          \<noteq> Name examplePlugin
      \<and> (\<forall>E'. \<exists>r j c. OnJobAdd E' exampleConsts examplePlugin exampleJob
                         = (r, j, Call_GenerateKey 1024 # c)))
   \<and> (\<exists>err calls.
      OnJobAdd (exampleEnv (Inr ''key'') (Some ''already exists'')) exampleConsts examplePlugin exampleJob
        = (Return (Some err), exampleJob, calls)
      \<and> mapIndex (ControlledResources (Job_Status exampleJob)) (''plugin-'' @ Name examplePlugin)
          \<noteq> Name examplePlugin
      \<and> (\<forall>E'. \<exists>r j c. OnJobAdd E' exampleConsts examplePlugin exampleJob
                         = (r, j, Call_GenerateKey 1024 # c)))"
proof -
  have u: "mapIndex (ControlledResources (Job_Status exampleJob)) ''plugin-ssh'' \<noteq> ''ssh''"
    by (simp add: exampleJob_def mapIndex_def)
  have g: "(\<exists>e. rsa_GenerateKey (exampleEnv (Inl ''no entropy'') None) 1024 = Inl e)
           \<or> (\<exists>k e. rsa_GenerateKey (exampleEnv (Inl ''no entropy'') None) 1024 = Inr k
                 \<and> ssh_NewPublicKey (exampleEnv (Inl ''no entropy'') None) k = Inl e)
           \<or> (\<exists>d e. snd (generateRsaKey (exampleEnv (Inl ''no entropy'') None) exampleConsts exampleJob) = Inr d
                 \<and> CreateSecret (exampleEnv (Inl ''no entropy'') None) exampleJob
                      (KubeClients (Clientset examplePlugin)) d (secretName examplePlugin exampleJob) = Some e)"
    by (simp add: exampleEnv_def)
  have p: "(\<exists>e. rsa_GenerateKey (exampleEnv (Inr ''key'') (Some ''already exists'')) 1024 = Inl e)
           \<or> (\<exists>k e. rsa_GenerateKey (exampleEnv (Inr ''key'') (Some ''already exists'')) 1024 = Inr k
                 \<and> ssh_NewPublicKey (exampleEnv (Inr ''key'') (Some ''already exists'')) k = Inl e)
           \<or> (\<exists>d e. snd (generateRsaKey (exampleEnv (Inr ''key'') (Some ''already exists'')) exampleConsts exampleJob) = Inr d
                 \<and> CreateSecret (exampleEnv (Inr ''key'') (Some ''already exists'')) exampleJob
                      (KubeClients (Clientset examplePlugin)) d (secretName examplePlugin exampleJob) = Some e)"
    by (simp add: exampleEnv_def generateRsaKey_def Let_def)
  show ?thesis
    using OnJobAdd_failure_unmarked [OF u g] OnJobAdd_failure_unmarked [OF u p] by simp
qed

lemma OnJobAdd_example_values:
  "OnJobAdd (exampleEnv (Inl ''no entropy'') None) exampleConsts examplePlugin exampleJob
     = (Return (Some ''no entropy''), exampleJob, [Call_GenerateKey 1024])"
  "fst (OnJobAdd (exampleEnv (Inr ''key'') (Some ''already exists'')) exampleConsts examplePlugin exampleJob)
     = Return (Some ''create secret for job <ns/job> with ssh plugin failed for already exists'')"
  by (simp_all add: OnJobAdd_def generateRsaKey_def exampleEnv_def exampleJob_def mapIndex_def
        Name_def Let_def)

subsection \<open>OnPodCreate\<close>

lemma length_writeCell [simp]: "length (VolumeMounts (writeCell a k v c)) = length (VolumeMounts c)"
  by (simp add: writeCell_def)

lemma writeCell_fields [simp]:
  "VolumeMounts_array (writeCell a k v c) = VolumeMounts_array c"
  "VolumeMounts_offset (writeCell a k v c) = VolumeMounts_offset c"
  "VolumeMounts_cap (writeCell a k v c) = VolumeMounts_cap c"
  "Container_Name (writeCell a k v c) = Container_Name c"
  by (simp_all add: writeCell_def)

lemma length_appendMount [simp]: "length (appendMount i vm cs) = length cs"
  by (simp add: appendMount_def Let_def)

lemma length_fold_appendMount [simp]:
  "length (fold (\<lambda>i cs. appendMount i vm cs) is cs) = length cs"
  by (induction "is" arbitrary: cs) simp_all

lemma length_appendMounts: "length (appendMounts vm cs) = length cs"
  by (simp add: appendMounts_def)

lemma appendMount_at:
  "i < length cs \<Longrightarrow>
   VolumeMounts (appendMount i vm cs ! i) = VolumeMounts (cs ! i) @ [vm]"
  by (simp add: appendMount_def Let_def)

lemma writeCell_last:
  assumes "VolumeMounts c \<noteq> []" and "last (VolumeMounts c) = v"
  shows "VolumeMounts (writeCell a k v c) \<noteq> [] \<and> last (VolumeMounts (writeCell a k v c)) = v"
  using assms by (simp add: writeCell_def last_list_update)

lemma appendMount_last_kept:
  assumes "j < length cs" and "j \<noteq> i"
      and "VolumeMounts (cs ! j) \<noteq> []" and "last (VolumeMounts (cs ! j)) = vm"
  shows "VolumeMounts (appendMount i vm cs ! j) \<noteq> []
         \<and> last (VolumeMounts (appendMount i vm cs ! j)) = vm"
  using assms writeCell_last [OF assms(3,4)]
  by (simp add: appendMount_def Let_def)

lemma fold_appendMount_last:
  assumes "k \<le> length cs" and "j < k"
  shows "VolumeMounts (fold (\<lambda>i cs. appendMount i vm cs) [0..<k] cs ! j) \<noteq> []
         \<and> last (VolumeMounts (fold (\<lambda>i cs. appendMount i vm cs) [0..<k] cs ! j)) = vm"
  using assms
proof (induction k)
  case 0
  then show ?case by simp
next
  case (Suc k)
  let ?R = "fold (\<lambda>i cs. appendMount i vm cs) [0..<k] cs"
  have len: "length ?R = length cs" by simp
  have step: "fold (\<lambda>i cs. appendMount i vm cs) [0..<Suc k] cs = appendMount k vm ?R"
    by simp
  show ?case
  proof (cases "j = k")
    case True
    then show ?thesis
      using Suc.prems len unfolding step by (simp add: appendMount_at)
  next
    case False
    then have "j < k" using Suc.prems by simp
    then have "VolumeMounts (?R ! j) \<noteq> [] \<and> last (VolumeMounts (?R ! j)) = vm"
      using Suc by simp
    then show ?thesis
      unfolding step using appendMount_last_kept [of j ?R k vm] False Suc.prems len by simp
  qed
qed

lemma appendMounts_last:
  assumes "c \<in> set (appendMounts vm cs)"
  shows "VolumeMounts c \<noteq> [] \<and> last (VolumeMounts c) = vm"
proof -
  obtain j where j: "j < length (appendMounts vm cs)" "c = appendMounts vm cs ! j"
    using assms by (auto simp: in_set_conv_nth)
  then show ?thesis
    using fold_appendMount_last [of "length cs" cs j vm]
    by (simp add: appendMounts_def)
qed


lemma mountsUnshared_iff:
  "mountsUnshared cs \<longleftrightarrow>
     (\<forall>i < length cs. \<forall>j < length cs.
        i \<noteq> j \<and> length (VolumeMounts (cs ! i)) < VolumeMounts_cap (cs ! i)
        \<longrightarrow> VolumeMounts_array (cs ! i) \<noteq> VolumeMounts_array (cs ! j))"
  by (fastforce simp: mountsUnshared_def list_all_iff)

lemma freshArray_greater:
  "j < length cs \<Longrightarrow> VolumeMounts_array (cs ! j) < freshArray cs"
proof -
  have "x \<in> set xs \<Longrightarrow> x \<le> foldr max xs (0 :: nat)" for x xs
    by (induction xs) auto
  then show "j < length cs \<Longrightarrow> VolumeMounts_array (cs ! j) < freshArray cs"
    unfolding freshArray_def
    by (metis length_map less_Suc_eq_le nth_map nth_mem)
qed

lemma writeCell_other_array:
  "VolumeMounts_array c \<noteq> a \<Longrightarrow> writeCell a k v c = c"
  by (simp add: writeCell_def)

lemma writeCell_behind:
  "writeCell a (VolumeMounts_offset c + length (VolumeMounts c)) v c = c"
  by (simp add: writeCell_def)

lemma appendMount_in_place:
  assumes "i < length cs"
      and "length (VolumeMounts (cs ! i)) < VolumeMounts_cap (cs ! i)"
      and "\<forall>j < length cs. j \<noteq> i \<longrightarrow> VolumeMounts_array (cs ! j) \<noteq> VolumeMounts_array (cs ! i)"
  shows "appendMount i vm cs = cs[i := (cs ! i)\<lparr>VolumeMounts := VolumeMounts (cs ! i) @ [vm]\<rparr>]"
proof -
  let ?w = "writeCell (VolumeMounts_array (cs ! i))
              (VolumeMounts_offset (cs ! i) + length (VolumeMounts (cs ! i))) vm"
  have "?w (cs ! j) = cs ! j" if "j < length cs" for j
    using that assms(3) writeCell_other_array [where c = "cs ! j"]
      writeCell_behind [where c = "cs ! i"]
    by (cases "j = i") auto
  then have "map ?w cs = cs"
    by (simp add: list_eq_iff_nth_eq)
  then show ?thesis
    using assms(2) by (simp add: appendMount_def Let_def)
qed

lemma appendMount_new_array:
  assumes "\<not> length (VolumeMounts (cs ! i)) < VolumeMounts_cap (cs ! i)"
  shows "appendMount i vm cs =
           cs[i := (cs ! i)\<lparr>VolumeMounts := VolumeMounts (cs ! i) @ [vm],
                            VolumeMounts_array := freshArray cs,
                            VolumeMounts_offset := 0,
                            VolumeMounts_cap := length (VolumeMounts (cs ! i)) + 1\<rparr>]"
  using assms by (simp add: appendMount_def Let_def)


lemma fold_appendMount_unshared:
  assumes U: "mountsUnshared cs" and "k \<le> length cs"
  shows "(\<forall>j < k.
            VolumeMounts (fold (\<lambda>i cs. appendMount i vm cs) [0..<k] cs ! j) = VolumeMounts (cs ! j) @ [vm]
            \<and> Container_Name (fold (\<lambda>i cs. appendMount i vm cs) [0..<k] cs ! j) = Container_Name (cs ! j)
            \<and> (\<forall>m. k \<le> m \<and> m < length cs
                     \<and> length (VolumeMounts (cs ! m)) < VolumeMounts_cap (cs ! m)
                  \<longrightarrow> VolumeMounts_array (fold (\<lambda>i cs. appendMount i vm cs) [0..<k] cs ! j)
                        \<noteq> VolumeMounts_array (cs ! m)))
         \<and> (\<forall>j. k \<le> j \<and> j < length cs
                \<longrightarrow> fold (\<lambda>i cs. appendMount i vm cs) [0..<k] cs ! j = cs ! j)"
  using assms(2)
proof (induction k)
  case 0
  then show ?case by simp
next
  case (Suc k)
  let ?R = "fold (\<lambda>i cs. appendMount i vm cs) [0..<k] cs"
  have k: "k < length cs" using Suc.prems by simp
  have len: "length ?R = length cs" by simp
  have step: "fold (\<lambda>i cs. appendMount i vm cs) [0..<Suc k] cs = appendMount k vm ?R"
    by simp
  have earlier: "VolumeMounts (?R ! j) = VolumeMounts (cs ! j) @ [vm]"
             "Container_Name (?R ! j) = Container_Name (cs ! j)" if "j < k" for j
    using Suc that by simp_all
  have apart: "VolumeMounts_array (?R ! j) \<noteq> VolumeMounts_array (cs ! m)"
    if "j < k" "k \<le> m" "m < length cs" "length (VolumeMounts (cs ! m)) < VolumeMounts_cap (cs ! m)"
    for j m
    using Suc that by simp
  have rest: "?R ! j = cs ! j" if "k \<le> j" "j < length cs" for j
    using Suc that by simp
  have at: "?R ! k = cs ! k"
    using rest [of k] k by simp
  note V = U [unfolded mountsUnshared_iff, rule_format]
  show ?case
  proof (cases "length (VolumeMounts (cs ! k)) < VolumeMounts_cap (cs ! k)")
    case True
    have "VolumeMounts_array (?R ! j) \<noteq> VolumeMounts_array (?R ! k)"
      if "j < length ?R" "j \<noteq> k" for j
    proof (cases "j < k")
      case True
      then show ?thesis
        using apart [of j k] k \<open>length (VolumeMounts (cs ! k)) < VolumeMounts_cap (cs ! k)\<close>
        by (simp add: at)
    next
      case False
      then have "k \<le> j" "j < length cs" using that by simp_all
      then show ?thesis
        using rest [of j] V [of k j] k that True by (simp add: at)
    qed
    then have eq: "appendMount k vm ?R = ?R[k := (?R ! k)\<lparr>VolumeMounts := VolumeMounts (?R ! k) @ [vm]\<rparr>]"
      using appendMount_in_place [of k ?R vm] k True by (simp add: at)
    have new: "VolumeMounts_array (cs ! k) \<noteq> VolumeMounts_array (cs ! m)"
      if "Suc k \<le> m" "m < length cs" "length (VolumeMounts (cs ! m)) < VolumeMounts_cap (cs ! m)" for m
      using V [of m k] that k by auto
    show ?thesis
      unfolding step eq
      using k len earlier apart rest new
      by (auto simp: nth_list_update at less_Suc_eq)
  next
    case False
    have eq: "appendMount k vm ?R =
           ?R[k := (?R ! k)\<lparr>VolumeMounts := VolumeMounts (?R ! k) @ [vm],
                            VolumeMounts_array := freshArray ?R,
                            VolumeMounts_offset := 0,
                            VolumeMounts_cap := length (VolumeMounts (?R ! k)) + 1\<rparr>]"
      using appendMount_new_array [of ?R k vm] False by (simp add: at)
    have new: "freshArray ?R \<noteq> VolumeMounts_array (cs ! m)"
      if "Suc k \<le> m" "m < length cs" for m
      using freshArray_greater [of m ?R] rest [of m] that by simp
    show ?thesis
      unfolding step eq
      using k len earlier apart rest new
      by (auto simp: nth_list_update at less_Suc_eq)
  qed
qed

lemma appendMounts_unshared:
  assumes "mountsUnshared cs"
  shows "map VolumeMounts (appendMounts vm cs) = map (\<lambda>c. VolumeMounts c @ [vm]) cs
         \<and> map Container_Name (appendMounts vm cs) = map Container_Name cs"
proof -
  note t = fold_appendMount_unshared [OF assms, of "length cs" vm, THEN conjunct1, rule_format]
  have m: "VolumeMounts (appendMounts vm cs ! j) = VolumeMounts (cs ! j) @ [vm]"
    and n: "Container_Name (appendMounts vm cs ! j) = Container_Name (cs ! j)"
    if "j < length cs" for j
    using t [of j] that unfolding appendMounts_def by blast+
  have l: "length (appendMounts vm cs) = length cs"
    by (rule length_appendMounts)
  show ?thesis
    using m n l by (simp add: list_eq_iff_nth_eq)
qed

lemma appendMount_lengths:
  assumes "i < length cs" and "j < length cs"
  shows "length (VolumeMounts (appendMount i vm cs ! j)) =
           (if j = i then Suc (length (VolumeMounts (cs ! j))) else length (VolumeMounts (cs ! j)))"
  using assms by (simp add: appendMount_def Let_def nth_list_update)

lemma fold_appendMount_lengths:
  assumes "k \<le> length cs" and "j < length cs"
  shows "length (VolumeMounts (fold (\<lambda>i cs. appendMount i vm cs) [0..<k] cs ! j)) =
           (if j < k then Suc (length (VolumeMounts (cs ! j))) else length (VolumeMounts (cs ! j)))"
  using assms
proof (induction k)
  case 0
  then show ?case by simp
next
  case (Suc k)
  let ?R = "fold (\<lambda>i cs. appendMount i vm cs) [0..<k] cs"
  have "length (VolumeMounts (appendMount k vm ?R ! j)) =
          (if j = k then Suc (length (VolumeMounts (?R ! j))) else length (VolumeMounts (?R ! j)))"
    using appendMount_lengths [of k ?R j vm] Suc.prems by simp
  then show ?case
    using Suc by (auto simp: less_Suc_eq)
qed

lemma appendMounts_lengths:
  "map (\<lambda>c. length (VolumeMounts c)) (appendMounts vm cs) =
     map (\<lambda>c. Suc (length (VolumeMounts c))) cs"
proof -
  have "length (VolumeMounts (appendMounts vm cs ! j)) = Suc (length (VolumeMounts (cs ! j)))"
    if "j < length cs" for j
    using fold_appendMount_lengths [of "length cs" cs j vm] that
    unfolding appendMounts_def by simp
  then show ?thesis
    using length_appendMounts [of vm cs] by (simp add: list_eq_iff_nth_eq)
qed

lemma sum_list_Suc:
  "sum_list (map (\<lambda>c. Suc (f c)) cs) = sum_list (map f cs) + length cs"
  by (induction cs) simp_all

text \<open>
  Claim C5, as the code has it. \<^verbatim>\<open>OnPodCreate\<close> appends exactly one volume to the pod's
  volumes; the number of containers stays the same, the mount slice of every container
  becomes exactly one longer and ends with the new mount, so a pod with C containers
  has C more mounts in total. The volume's name, the name of the secret it is made from
  and the name in the new mount are the secret name of the job. When no container whose
  mount slice has spare capacity shares the slice's array with another container of the
  pod, every container keeps the mounts it had, followed by the one new mount. (Where
  such an array is shared, \<^verbatim>\<open>append\<close> writes the new mount over an element of the other
  container.)
\<close>

theorem OnPodCreate_mount_fanout:
  "(\<exists>v. Volumes (Pod_Spec (snd (OnPodCreate K sp pod job))) = Volumes (Pod_Spec pod) @ [v]
      \<and> Volume_Name v = secretName sp job
      \<and> map_option SecretName (Secret v) = Some (secretName sp job))
   \<and> length (Containers (Pod_Spec (snd (OnPodCreate K sp pod job))))
         = length (Containers (Pod_Spec pod))
   \<and> (\<forall>c \<in> set (Containers (Pod_Spec (snd (OnPodCreate K sp pod job)))).
         VolumeMounts c \<noteq> []
         \<and> last (VolumeMounts c) =
             \<lparr>MountPath = sshKeyFilePath sp, SubPath = SSHRelativePath K,
              VolumeMount_Name = secretName sp job\<rparr>)
   \<and> map (\<lambda>c. length (VolumeMounts c)) (Containers (Pod_Spec (snd (OnPodCreate K sp pod job))))
         = map (\<lambda>c. Suc (length (VolumeMounts c))) (Containers (Pod_Spec pod))
   \<and> sum_list (map (\<lambda>c. length (VolumeMounts c))
          (Containers (Pod_Spec (snd (OnPodCreate K sp pod job)))))
         = sum_list (map (\<lambda>c. length (VolumeMounts c)) (Containers (Pod_Spec pod)))
           + length (Containers (Pod_Spec pod))
   \<and> (mountsUnshared (Containers (Pod_Spec pod)) \<longrightarrow>
         map VolumeMounts (Containers (Pod_Spec (snd (OnPodCreate K sp pod job)))) =
           map (\<lambda>c. VolumeMounts c @
                  [\<lparr>MountPath = sshKeyFilePath sp, SubPath = SSHRelativePath K,
                    VolumeMount_Name = secretName sp job\<rparr>])
             (Containers (Pod_Spec pod))
         \<and> map Container_Name (Containers (Pod_Spec (snd (OnPodCreate K sp pod job))))
             = map Container_Name (Containers (Pod_Spec pod)))"
proof -
  let ?vm = "\<lparr>MountPath = sshKeyFilePath sp, SubPath = SSHRelativePath K,
              VolumeMount_Name = secretName sp job\<rparr>"
  have cs: "Containers (Pod_Spec (snd (OnPodCreate K sp pod job)))
              = appendMounts ?vm (Containers (Pod_Spec pod))"
    by (simp add: OnPodCreate_def mountRsaKey_def Let_def)
  have vol: "\<exists>v. Volumes (Pod_Spec (snd (OnPodCreate K sp pod job))) = Volumes (Pod_Spec pod) @ [v]
      \<and> Volume_Name v = secretName sp job
      \<and> map_option SecretName (Secret v) = Some (secretName sp job)"
    by (simp add: OnPodCreate_def mountRsaKey_def Let_def)
  have total: "sum_list (map (\<lambda>c. length (VolumeMounts c))
          (appendMounts ?vm (Containers (Pod_Spec pod))))
         = sum_list (map (\<lambda>c. length (VolumeMounts c)) (Containers (Pod_Spec pod)))
           + length (Containers (Pod_Spec pod))"
    by (simp only: appendMounts_lengths sum_list_Suc)
  show ?thesis
    unfolding cs
    using vol [unfolded cs] total appendMounts_lengths [of ?vm "Containers (Pod_Spec pod)"]
      appendMounts_last [of _ ?vm "Containers (Pod_Spec pod)"]
      appendMounts_unshared [of "Containers (Pod_Spec pod)" ?vm]
      length_appendMounts [of ?vm "Containers (Pod_Spec pod)"]
    by blast
qed

theorem OnPodCreate_mount_fanout_witness:
  "map Volume_Name (Volumes (Pod_Spec (snd (OnPodCreate exampleConsts examplePlugin examplePod exampleJob))))
     = [''data'', ''job-u1-ssh'']
   \<and> map (\<lambda>c. map VolumeMount_Name (VolumeMounts c))
        (Containers (Pod_Spec (snd (OnPodCreate exampleConsts examplePlugin examplePod exampleJob))))
     = [[''data'', ''job-u1-ssh''], [''job-u1-ssh'']]"
proof -
  have u: "mountsUnshared (Containers (Pod_Spec examplePod))"
    by (simp add: mountsUnshared_def examplePod_def)
  note t = OnPodCreate_mount_fanout [of exampleConsts examplePlugin examplePod exampleJob]
  note m = t [THEN conjunct2, THEN conjunct2, THEN conjunct2, THEN conjunct2, THEN conjunct2,
              THEN mp, OF u, THEN conjunct1]
  have a: "map Volume_Name (Volumes (Pod_Spec (snd (OnPodCreate exampleConsts examplePlugin examplePod exampleJob))))
     = [''data'', ''job-u1-ssh'']"
    using t [THEN conjunct1]
    by (auto simp: examplePod_def exampleJob_def examplePlugin_def secretName_def Name_def)
  have "map (\<lambda>c. map VolumeMount_Name (VolumeMounts c))
        (Containers (Pod_Spec (snd (OnPodCreate exampleConsts examplePlugin examplePod exampleJob))))
     = map (map VolumeMount_Name)
         (map VolumeMounts (Containers (Pod_Spec (snd (OnPodCreate exampleConsts examplePlugin examplePod exampleJob)))))"
    by simp
  also have "\<dots> = [[''data'', ''job-u1-ssh''], [''job-u1-ssh'']]"
    unfolding m
    by (simp add: examplePod_def exampleJob_def examplePlugin_def secretName_def Name_def)
  finally show ?thesis
    using a by simp
qed

text \<open>
  On a pod whose two containers have mount slices with spare capacity on one array,
  the first reading the mount \<^verbatim>\<open>data\<close> and the second the mounts \<^verbatim>\<open>data\<close> and \<^verbatim>\<open>logs\<close>, the
  second container ends with two mounts of the secret and without its mount \<^verbatim>\<open>logs\<close>:
  it did not get exactly one mount appended to those it had.
\<close>

theorem OnPodCreate_mount_fanout_counterexample:
  "map (map VolumeMount_Name) (map VolumeMounts (Containers (Pod_Spec sharedArrayPod)))
     = [[''data''], [''data'', ''logs'']]
   \<and> map (map VolumeMount_Name) (map VolumeMounts
        (Containers (Pod_Spec (snd (OnPodCreate exampleConsts examplePlugin sharedArrayPod exampleJob)))))
     = [[''data'', ''job-u1-ssh''], [''data'', ''job-u1-ssh'', ''job-u1-ssh'']]
   \<and> VolumeMounts (Containers (Pod_Spec
          (snd (OnPodCreate exampleConsts examplePlugin sharedArrayPod exampleJob))) ! 1)
       \<noteq> VolumeMounts (Containers (Pod_Spec sharedArrayPod) ! 1)
           @ [\<lparr>MountPath = sshKeyFilePath examplePlugin, SubPath = SSHRelativePath exampleConsts,
                VolumeMount_Name = secretName examplePlugin exampleJob\<rparr>]"
  by (simp add: OnPodCreate_def mountRsaKey_def appendMounts_def appendMount_def writeCell_def
        freshArray_def sharedArrayPod_def exampleJob_def examplePlugin_def exampleConsts_def
        secretName_def Name_def Let_def)

text \<open>
  Claim C6. The volume that \<^verbatim>\<open>OnPodCreate\<close> appends is made from a secret and exposes
  exactly four items, in this order: the private key, the public key, the authorized
  keys, whose key is that of the public key, and the configuration; the path of each is
  the relative SSH directory, a slash, and the file's name.
\<close>

theorem OnPodCreate_volume_items:
  "\<exists>s. Secret (last (Volumes (Pod_Spec (snd (OnPodCreate K sp pod job))))) = Some s
      \<and> length (Volumes (Pod_Spec (snd (OnPodCreate K sp pod job)))) = Suc (length (Volumes (Pod_Spec pod)))
      \<and> Items s =
          [\<lparr>Key = SSHPrivateKey K, Path = SSHRelativePath K @ ''/'' @ SSHPrivateKey K\<rparr>,
           \<lparr>Key = SSHPublicKey K, Path = SSHRelativePath K @ ''/'' @ SSHPublicKey K\<rparr>,
           \<lparr>Key = SSHPublicKey K, Path = SSHRelativePath K @ ''/'' @ SSHAuthorizedKeys K\<rparr>,
           \<lparr>Key = SSHConfig K, Path = SSHRelativePath K @ ''/'' @ SSHConfig K\<rparr>]
      \<and> length (Items s) = 4
      \<and> Key (Items s ! 2) = Key (Items s ! 1)"
  by (simp add: OnPodCreate_def mountRsaKey_def Let_def)

theorem OnPodCreate_volume_items_witness:
  "map_option (\<lambda>s. map (\<lambda>i. (Key i, Path i)) (Items s))
     (Secret (last (Volumes (Pod_Spec (snd (OnPodCreate exampleConsts examplePlugin examplePod exampleJob))))))
   = Some [(''id_rsa'', ''.ssh/id_rsa''), (''id_rsa.pub'', ''.ssh/id_rsa.pub''),
           (''id_rsa.pub'', ''.ssh/authorized_keys''), (''config'', ''.ssh/config'')]"
  using OnPodCreate_volume_items [of exampleConsts examplePlugin examplePod exampleJob]
  by (auto simp: exampleConsts_def)

text \<open>
  Claim C10. \<^verbatim>\<open>OnPodCreate\<close> returns \<^verbatim>\<open>nil\<close> for every pod and every job.
\<close>

theorem OnPodCreate_returns_nil:
  "fst (OnPodCreate K sp pod job) = None"
  by (simp add: OnPodCreate_def)

theorem OnPodCreate_returns_nil_witness:
  "fst (OnPodCreate exampleConsts examplePlugin examplePod exampleJob) = None"
  using OnPodCreate_returns_nil [of exampleConsts examplePlugin examplePod exampleJob] .

subsection \<open>Plugin arguments, mount location and file mode\<close>

lemma parseOne_other_option:
  assumes "optionName s \<noteq> Some ''no-root''" and "optionName s \<noteq> Some ''ssh-key-file-path''"
  shows "fst (parseOne sp (s # rest)) = False \<and> fst (snd (snd (parseOne sp (s # rest)))) = sp"
proof (cases "length s < 2 \<or> s ! 0 \<noteq> CHR ''-''")
  case True
  then show ?thesis by (simp add: parseOne_def)
next
  case nf: False
  show ?thesis
  proof (cases "s ! 1 = CHR ''-'' \<and> length s = 2")
    case True
    then show ?thesis using nf by (simp add: parseOne_def)
  next
    case nt: False
    define name where "name = drop (if s ! 1 = CHR ''-'' then 2 else 1) s"
    show ?thesis
    proof (cases "length name = 0 \<or> name ! 0 = CHR ''-'' \<or> name ! 0 = CHR ''=''")
      case True
      then show ?thesis
        using nf nt unfolding name_def by (simp add: parseOne_def Let_def)
    next
      case ok: False
      obtain n v where sv: "splitValue name = (n, v)"
        by (cases "splitValue name") auto
      have "optionName s = Some n"
        using nf ok sv unfolding name_def optionName_def by (simp add: Let_def)
      then have n: "n \<noteq> ''no-root''" "n \<noteq> ''ssh-key-file-path''"
        using assms by auto
      have "parseOne sp (s # rest) =
              (if n = ''help'' \<or> n = ''h'' then (False, Some ErrHelp, sp, rest)
               else (False, Some FlagNotDefined, sp, rest))"
        using nf nt ok sv n unfolding name_def parseOne_def by (auto simp: Let_def)
      then show ?thesis by simp
    qed
  qed
qed

lemma Parse_seen:
  "parseOne sp args = (True, e, sp', args') \<Longrightarrow> Parse sp args = Parse sp' args'"
  by (subst Parse.simps) simp

lemma Parse_stop:
  "parseOne sp args = (False, e, sp', args') \<Longrightarrow> Parse sp args = (e, sp')"
  by (subst Parse.simps) simp

lemma Parse_other_option:
  assumes "args = [] \<or> (optionName (hd args) \<noteq> Some ''no-root''
                          \<and> optionName (hd args) \<noteq> Some ''ssh-key-file-path'')"
  shows "snd (Parse sp args) = sp"
proof (cases args)
  case Nil
  then have "parseOne sp args = (False, None, sp, [])"
    by (simp add: parseOne_def)
  then show ?thesis
    by (simp add: Parse_stop)
next
  case (Cons s rest)
  then have "fst (parseOne sp args) = False \<and> fst (snd (snd (parseOne sp args))) = sp"
    using assms parseOne_other_option [of s sp rest] by simp
  then obtain e args' where "parseOne sp args = (False, e, sp, args')"
    by (cases "parseOne sp args") auto
  then show ?thesis
    by (simp add: Parse_stop)
qed

lemma addFlags_neither_option:
  assumes "\<forall>a \<in> set (pluginArguments sp). optionName a \<noteq> Some ''no-root''
                          \<and> optionName a \<noteq> Some ''ssh-key-file-path''"
  shows "addFlags sp = sp"
proof -
  have "pluginArguments sp = [] \<or> (optionName (hd (pluginArguments sp)) \<noteq> Some ''no-root''
          \<and> optionName (hd (pluginArguments sp)) \<noteq> Some ''ssh-key-file-path'')"
    using assms by (cases "pluginArguments sp") auto
  then show ?thesis
    using Parse_other_option [of "pluginArguments sp" sp]
    by (simp add: addFlags_def)
qed

lemma addFlags_stops_at_rejected:
  assumes "pluginArguments sp = a # rest"
      and "optionName a \<noteq> Some ''no-root''" and "optionName a \<noteq> Some ''ssh-key-file-path''"
  shows "addFlags sp = sp"
  using assms Parse_other_option [of "pluginArguments sp" sp]
  by (simp add: addFlags_def)

lemma parseOne_no_root:
  assumes "a = ''-no-root'' \<or> a = ''--no-root''"
  shows "parseOne sp (a # rest) = (True, None, sp\<lparr>noRoot := True\<rparr>, rest)"
  using assms by (auto simp: parseOne_def splitValue_def)

lemma Parse_no_root_only:
  assumes "set args \<subseteq> {''-no-root'', ''--no-root''}"
  shows "Parse sp args = (None, if args = [] then sp else sp\<lparr>noRoot := True\<rparr>)"
  using assms
proof (induction args arbitrary: sp)
  case Nil
  have "parseOne sp [] = (False, None, sp, [])"
    by (simp add: parseOne_def)
  then show ?case
    by (simp add: Parse_stop)
next
  case (Cons a rest)
  then have "a = ''-no-root'' \<or> a = ''--no-root''" by simp
  then have "Parse sp (a # rest) = Parse (sp\<lparr>noRoot := True\<rparr>) rest"
    using parseOne_no_root [of a sp rest] by (simp add: Parse_seen)
  then show ?case
    using Cons by simp
qed

lemma addFlags_no_root_only:
  assumes "pluginArguments sp \<noteq> []"
      and "set (pluginArguments sp) \<subseteq> {''-no-root'', ''--no-root''}"
  shows "addFlags sp = sp\<lparr>noRoot := True\<rparr>"
  using assms Parse_no_root_only [of "pluginArguments sp" sp]
  by (simp add: addFlags_def)

lemma mountRsaKey_mode:
  "map_option DefaultMode (Secret (last (Volumes (Pod_Spec (mountRsaKey K sp pod job))))) =
     Some (Some (if sshKeyFilePath sp \<noteq> SSHAbsolutePath K then 493 else 384))"
  by (simp add: mountRsaKey_def Let_def)

lemma mountRsaKey_mount_paths:
  "c \<in> set (Containers (Pod_Spec (mountRsaKey K sp pod job))) \<Longrightarrow>
     MountPath (last (VolumeMounts c)) = sshKeyFilePath sp"
  using appendMounts_last [of c _ "Containers (Pod_Spec pod)"]
  by (simp add: mountRsaKey_def Let_def)

lemma New_sshKeyFilePath:
  "sshKeyFilePath (New K client args) =
     (let sp = addFlags \<lparr>pluginArguments = args, Clientset = client, noRoot = False,
                         sshKeyFilePath = SSHAbsolutePath K\<rparr>
      in if noRoot sp \<and> sshKeyFilePath sp = SSHAbsolutePath K
         then ConfigMapMountPath K @ ''/'' @ SSHRelativePath K
         else sshKeyFilePath sp)"
  by (simp add: New_def Let_def)

text \<open>
  Claim C8. An argument list sets \<^verbatim>\<open>no-root\<close> and does not override
  \<^verbatim>\<open>ssh-key-file-path\<close> when parsing it leaves the flag \<^verbatim>\<open>noRoot\<close> true and the path at
  its default, the canonical root SSH directory \<^verbatim>\<open>SSHAbsolutePath\<close>. For every such list,
  and given that the directory under the config-map mount path differs from the
  canonical one, the plugin's path is \<^verbatim>\<open>ConfigMapMountPath/SSHRelativePath\<close>, every mount
  that \<^verbatim>\<open>mountRsaKey\<close> adds is at this path, and the volume's default mode is \<^verbatim>\<open>0755\<close>,
  which others can read. For every argument list in which no argument names either
  option, the plugin's path and every mount are at the canonical root SSH directory and
  the default mode is \<^verbatim>\<open>0600\<close>, which gives group and others nothing. Every non-empty
  list of arguments that are all \<^verbatim>\<open>-no-root\<close> or \<^verbatim>\<open>--no-root\<close> sets \<^verbatim>\<open>no-root\<close> and does not
  override the path; a list in which \<^verbatim>\<open>no-root\<close> stands behind an argument that the parser
  rejects does not set it, since parsing stops there.
\<close>

theorem New_mount_location_and_mode:
  "(noRoot (addFlags \<lparr>pluginArguments = args, Clientset = client, noRoot = False,
                      sshKeyFilePath = SSHAbsolutePath K\<rparr>)
      \<and> sshKeyFilePath (addFlags \<lparr>pluginArguments = args, Clientset = client, noRoot = False,
                      sshKeyFilePath = SSHAbsolutePath K\<rparr>) = SSHAbsolutePath K
      \<and> ConfigMapMountPath K @ ''/'' @ SSHRelativePath K \<noteq> SSHAbsolutePath K
    \<longrightarrow> sshKeyFilePath (New K client args) = ConfigMapMountPath K @ ''/'' @ SSHRelativePath K
        \<and> (\<forall>c \<in> set (Containers (Pod_Spec (mountRsaKey K (New K client args) pod job))).
              MountPath (last (VolumeMounts c)) = ConfigMapMountPath K @ ''/'' @ SSHRelativePath K)
        \<and> map_option DefaultMode
             (Secret (last (Volumes (Pod_Spec (mountRsaKey K (New K client args) pod job)))))
            = Some (Some 493)
        \<and> worldReadable 493)
   \<and> ((\<forall>a \<in> set args. optionName a \<noteq> Some ''no-root''
                       \<and> optionName a \<noteq> Some ''ssh-key-file-path'')
    \<longrightarrow> sshKeyFilePath (New K client args) = SSHAbsolutePath K
        \<and> (\<forall>c \<in> set (Containers (Pod_Spec (mountRsaKey K (New K client args) pod job))).
              MountPath (last (VolumeMounts c)) = SSHAbsolutePath K)
        \<and> map_option DefaultMode
             (Secret (last (Volumes (Pod_Spec (mountRsaKey K (New K client args) pod job)))))
            = Some (Some 384)
        \<and> ownerOnly 384)
   \<and> (args \<noteq> [] \<and> set args \<subseteq> {''-no-root'', ''--no-root''}
    \<longrightarrow> noRoot (addFlags \<lparr>pluginArguments = args, Clientset = client, noRoot = False,
                      sshKeyFilePath = SSHAbsolutePath K\<rparr>)
        \<and> sshKeyFilePath (addFlags \<lparr>pluginArguments = args, Clientset = client, noRoot = False,
                      sshKeyFilePath = SSHAbsolutePath K\<rparr>) = SSHAbsolutePath K)"
proof -
  let ?S = "\<lparr>pluginArguments = args, Clientset = client, noRoot = False,
             sshKeyFilePath = SSHAbsolutePath K\<rparr>"
  have wr: "worldReadable 493" and oo: "ownerOnly 384"
    by (simp_all add: worldReadable_def ownerOnly_def)
  have first: "sshKeyFilePath (New K client args) = ConfigMapMountPath K @ ''/'' @ SSHRelativePath K"
    if "noRoot (addFlags ?S)" "sshKeyFilePath (addFlags ?S) = SSHAbsolutePath K"
    using that by (simp add: New_sshKeyFilePath)
  have second: "sshKeyFilePath (New K client args) = SSHAbsolutePath K"
    if "\<forall>a \<in> set args. optionName a \<noteq> Some ''no-root''
                       \<and> optionName a \<noteq> Some ''ssh-key-file-path''"
    using that addFlags_neither_option [of ?S] by (simp add: New_sshKeyFilePath)
  have third: "noRoot (addFlags ?S) \<and> sshKeyFilePath (addFlags ?S) = SSHAbsolutePath K"
    if "args \<noteq> []" "set args \<subseteq> {''-no-root'', ''--no-root''}"
    using that addFlags_no_root_only [of ?S] by simp
  have one: "sshKeyFilePath (New K client args) = ConfigMapMountPath K @ ''/'' @ SSHRelativePath K
        \<and> (\<forall>c \<in> set (Containers (Pod_Spec (mountRsaKey K (New K client args) pod job))).
              MountPath (last (VolumeMounts c)) = ConfigMapMountPath K @ ''/'' @ SSHRelativePath K)
        \<and> map_option DefaultMode
             (Secret (last (Volumes (Pod_Spec (mountRsaKey K (New K client args) pod job)))))
            = Some (Some 493)
        \<and> worldReadable 493"
    if "noRoot (addFlags ?S)" "sshKeyFilePath (addFlags ?S) = SSHAbsolutePath K"
       "ConfigMapMountPath K @ ''/'' @ SSHRelativePath K \<noteq> SSHAbsolutePath K"
    using first [OF that(1,2)] that(3) wr
    by (simp add: mountRsaKey_mode mountRsaKey_mount_paths)
  have two: "sshKeyFilePath (New K client args) = SSHAbsolutePath K
        \<and> (\<forall>c \<in> set (Containers (Pod_Spec (mountRsaKey K (New K client args) pod job))).
              MountPath (last (VolumeMounts c)) = SSHAbsolutePath K)
        \<and> map_option DefaultMode
             (Secret (last (Volumes (Pod_Spec (mountRsaKey K (New K client args) pod job)))))
            = Some (Some 384)
        \<and> ownerOnly 384"
    if "\<forall>a \<in> set args. optionName a \<noteq> Some ''no-root''
                       \<and> optionName a \<noteq> Some ''ssh-key-file-path''"
    using second [OF that] oo
    by (simp add: mountRsaKey_mode mountRsaKey_mount_paths)
  show ?thesis
    using one two third by blast
qed

lemma addFlags_no_root_example:
  "addFlags \<lparr>pluginArguments = [''--no-root''], Clientset = \<lparr>KubeClients = ()\<rparr>,
             noRoot = False, sshKeyFilePath = ''/root/.ssh''\<rparr>
   = \<lparr>pluginArguments = [''--no-root''], Clientset = \<lparr>KubeClients = ()\<rparr>,
      noRoot = True, sshKeyFilePath = ''/root/.ssh''\<rparr>"
proof -
  let ?S = "\<lparr>pluginArguments = [''--no-root''], Clientset = \<lparr>KubeClients = ()\<rparr>,
             noRoot = False, sshKeyFilePath = ''/root/.ssh''\<rparr>"
  let ?S' = "\<lparr>pluginArguments = [''--no-root''], Clientset = \<lparr>KubeClients = ()\<rparr>,
             noRoot = True, sshKeyFilePath = ''/root/.ssh''\<rparr>"
  have a: "parseOne ?S [''--no-root''] = (True, None, ?S', [])"
    by (simp add: parseOne_def splitValue_def)
  have b: "parseOne ?S' [] = (False, None, ?S', [])"
    by (simp add: parseOne_def)
  have "Parse ?S [''--no-root''] = (None, ?S')"
    using Parse_seen [OF a] Parse_stop [OF b] by simp
  then show ?thesis
    by (simp add: addFlags_def)
qed

theorem New_mount_location_and_mode_witness:
  "sshKeyFilePath (New exampleConsts \<lparr>KubeClients = ()\<rparr> [''--no-root'']) = ''/etc/volcano/.ssh''
   \<and> map (\<lambda>c. MountPath (last (VolumeMounts c)))
        (Containers (Pod_Spec (mountRsaKey exampleConsts
           (New exampleConsts \<lparr>KubeClients = ()\<rparr> [''--no-root'']) examplePod exampleJob)))
       = [''/etc/volcano/.ssh'', ''/etc/volcano/.ssh'']
   \<and> map_option DefaultMode (Secret (last (Volumes (Pod_Spec (mountRsaKey exampleConsts
           (New exampleConsts \<lparr>KubeClients = ()\<rparr> [''--no-root'']) examplePod exampleJob)))))
       = Some (Some 493)
   \<and> worldReadable 493
   \<and> sshKeyFilePath (New exampleConsts \<lparr>KubeClients = ()\<rparr> [''--verbose'', ''x'']) = ''/root/.ssh''
   \<and> map (\<lambda>c. MountPath (last (VolumeMounts c)))
        (Containers (Pod_Spec (mountRsaKey exampleConsts
           (New exampleConsts \<lparr>KubeClients = ()\<rparr> [''--verbose'', ''x'']) examplePod exampleJob)))
       = [''/root/.ssh'', ''/root/.ssh'']
   \<and> map_option DefaultMode (Secret (last (Volumes (Pod_Spec (mountRsaKey exampleConsts
           (New exampleConsts \<lparr>KubeClients = ()\<rparr> [''--verbose'', ''x'']) examplePod exampleJob)))))
       = Some (Some 384)
   \<and> ownerOnly 384"
proof -
  let ?c = "\<lparr>KubeClients = ()\<rparr>"
  have abs: "SSHAbsolutePath exampleConsts = ''/root/.ssh''"
    and cm: "ConfigMapMountPath exampleConsts @ ''/'' @ SSHRelativePath exampleConsts = ''/etc/volcano/.ssh''"
    by (simp_all add: exampleConsts_def)
  have h1: "noRoot (addFlags \<lparr>pluginArguments = [''--no-root''], Clientset = ?c, noRoot = False,
                      sshKeyFilePath = SSHAbsolutePath exampleConsts\<rparr>)
      \<and> sshKeyFilePath (addFlags \<lparr>pluginArguments = [''--no-root''], Clientset = ?c, noRoot = False,
                      sshKeyFilePath = SSHAbsolutePath exampleConsts\<rparr>) = SSHAbsolutePath exampleConsts
      \<and> ConfigMapMountPath exampleConsts @ ''/'' @ SSHRelativePath exampleConsts
           \<noteq> SSHAbsolutePath exampleConsts"
    unfolding abs cm by (simp add: addFlags_no_root_example)
  have h2: "\<forall>a \<in> set [''--verbose'', ''x'']. optionName a \<noteq> Some ''no-root''
                       \<and> optionName a \<noteq> Some ''ssh-key-file-path''"
    by (simp add: optionName_def splitValue_def)
  have len: "length (Containers (Pod_Spec (mountRsaKey exampleConsts sp examplePod exampleJob))) = 2"
    for sp :: "unit sshPlugin"
    by (simp add: mountRsaKey_def Let_def length_appendMounts examplePod_def)
  have two: "map f xs = [f (xs ! 0), f (xs ! 1)]" if "length xs = 2" for f :: "Container \<Rightarrow> string" and xs
    using that by (cases xs; cases "tl xs") auto
  have mem: "xs ! 0 \<in> set xs" "xs ! 1 \<in> set xs" if "length xs = 2" for xs :: "Container list"
    using that by simp_all
  note t1 = New_mount_location_and_mode [of "[''--no-root'']" ?c exampleConsts examplePod exampleJob,
              THEN conjunct1, THEN mp, OF h1]
  note t2 = New_mount_location_and_mode [of "[''--verbose'', ''x'']" ?c exampleConsts examplePod exampleJob,
              THEN conjunct2, THEN conjunct1, THEN mp, OF h2]
  show ?thesis
    using t1 t2 mem [OF len] unfolding abs cm two [OF len]
    by simp
qed

subsection \<open>Run\<close>

lemma electLeader_not_nil:
  "fst (electLeader E opt config calls) \<noteq> Return None"
  by (simp add: electLeader_def Let_def split: sum.splits outcome.splits)

lemma Run_not_nil:
  "fst (Run E opt) \<noteq> Return None"
  unfolding Run_def startControllers_def
  by (simp add: Let_def electLeader_not_nil
           split: prod.splits sum.splits option.splits outcome.splits)

lemma Run_returns_error_aux:
  "fst (Run E opt) = Return e \<Longrightarrow> e \<noteq> None"
  using Run_not_nil [of E opt] by auto

lemma Run_without_election:
  assumes "\<not> EnableLeaderElection opt"
      and "buildConfig E opt = (calls, Inr config)"
      and "StartHealthz E (HealthzBindAddress opt) ''volcano-controller'' = None"
      and "NewForConfigOrDie E config"
  shows "Run E opt =
           (case receiveDone E TODO of
              Return u \<Rightarrow> Return (Some ''finished without leader elect'')
            | Panics \<Rightarrow> Panics
            | NeverReturns \<Rightarrow> NeverReturns
            | ProcessExits \<Rightarrow> ProcessExits,
            calls @ [Call_StartHealthz (HealthzBindAddress opt) ''volcano-controller'',
                     Call_startControllers, Call_run TODO])"
  using assms
  by (simp add: Run_def startControllers_def Let_def split: outcome.splits)

text \<open>
  Claim C9. Whenever \<^verbatim>\<open>Run\<close> returns, it returns a non-nil error. When leader election is
  disabled, and the configuration, the health endpoint and the clients are in place,
  \<^verbatim>\<open>Run\<close> calls the controller callback with \<^verbatim>\<open>context.TODO()\<close> as its next and last
  outside call, without any call of the election; it returns the error
  \<^verbatim>\<open>finished without leader elect\<close> when the callback returns, and does not return when
  the callback does not.
\<close>

theorem Run_returns_error:
  "(\<forall>e. fst (Run E opt) = Return e \<longrightarrow> e \<noteq> None)
   \<and> (\<not> EnableLeaderElection opt \<longrightarrow>
        (\<forall>calls config.
           buildConfig E opt = (calls, Inr config)
           \<and> StartHealthz E (HealthzBindAddress opt) ''volcano-controller'' = None
           \<and> NewForConfigOrDie E config
           \<longrightarrow> snd (Run E opt) =
                 calls @ [Call_StartHealthz (HealthzBindAddress opt) ''volcano-controller'',
                          Call_startControllers, Call_run TODO]
               \<and> fst (Run E opt) =
                   (case receiveDone E TODO of
                      Return u \<Rightarrow> Return (Some ''finished without leader elect'')
                    | Panics \<Rightarrow> Panics
                    | NeverReturns \<Rightarrow> NeverReturns
                    | ProcessExits \<Rightarrow> ProcessExits)))"
  using Run_returns_error_aux [of E opt] Run_without_election [of opt E]
  by auto

theorem Run_returns_error_witness:
  "fst (Run (exampleServerEnv (Inl ''no kubeconfig'') NeverReturns) (exampleOption False))
     = Return (Some ''no kubeconfig'')
   \<and> Some ''no kubeconfig'' \<noteq> (None :: error option)
   \<and> Run (exampleServerEnv (Inr \<lparr>QPS = 0, Burst = 0, UserAgent = []\<rparr>) NeverReturns)
         (exampleOption False)
     = (NeverReturns,
        [Call_BuildConfigFromFlags [] ''/etc/kube/config'',
         Call_StartHealthz '':11252'' ''volcano-controller'', Call_startControllers, Call_run TODO])
   \<and> Run (exampleServerEnv (Inr \<lparr>QPS = 0, Burst = 0, UserAgent = []\<rparr>) (Return ()))
         (exampleOption False)
     = (Return (Some ''finished without leader elect''),
        [Call_BuildConfigFromFlags [] ''/etc/kube/config'',
         Call_StartHealthz '':11252'' ''volcano-controller'', Call_startControllers, Call_run TODO])"
proof -
  let ?cfg = "\<lparr>QPS = 0, Burst = 0, UserAgent = []\<rparr>"
  let ?cfg' = "\<lparr>QPS = 0, Burst = 100, UserAgent = []\<rparr>"
  have r: "fst (Run (exampleServerEnv (Inl ''no kubeconfig'') NeverReturns) (exampleOption False))
        = Return (Some ''no kubeconfig'')"
    by (simp add: Run_def buildConfig_def exampleServerEnv_def exampleOption_def Let_def)
  have a: "Some ''no kubeconfig'' \<noteq> (None :: error option)"
    using Run_returns_error [of "exampleServerEnv (Inl ''no kubeconfig'') NeverReturns" "exampleOption False",
            THEN conjunct1, THEN spec [of _ "Some ''no kubeconfig''"], THEN mp, OF r] .
  have disabled: "\<not> EnableLeaderElection (exampleOption False)"
    by (simp add: exampleOption_def)
  have ready: "buildConfig (exampleServerEnv (Inr ?cfg) w) (exampleOption False)
                 = ([Call_BuildConfigFromFlags [] ''/etc/kube/config''], Inr ?cfg')
       \<and> StartHealthz (exampleServerEnv (Inr ?cfg) w) (HealthzBindAddress (exampleOption False))
             ''volcano-controller'' = None
       \<and> NewForConfigOrDie (exampleServerEnv (Inr ?cfg) w) ?cfg'" for w
    by (simp add: buildConfig_def exampleServerEnv_def exampleOption_def Let_def)
  note t = Run_returns_error [THEN conjunct2, THEN mp, OF disabled, THEN spec, THEN spec, THEN mp, OF ready]
  have b: "Run (exampleServerEnv (Inr ?cfg) NeverReturns) (exampleOption False)
     = (NeverReturns,
        [Call_BuildConfigFromFlags [] ''/etc/kube/config'',
         Call_StartHealthz '':11252'' ''volcano-controller'', Call_startControllers, Call_run TODO])"
    using t [of NeverReturns]
    by (simp add: prod_eq_iff exampleServerEnv_def exampleOption_def)
  have c: "Run (exampleServerEnv (Inr ?cfg) (Return ())) (exampleOption False)
     = (Return (Some ''finished without leader elect''),
        [Call_BuildConfigFromFlags [] ''/etc/kube/config'',
         Call_StartHealthz '':11252'' ''volcano-controller'', Call_startControllers, Call_run TODO])"
    using t [of "Return ()"]
    by (simp add: prod_eq_iff exampleServerEnv_def exampleOption_def)
  show ?thesis
    using r a b c by simp
qed

end
